theory Spec2Isabelle
  imports Main "HOL-Library.Word"
begin

section \<open>The DSA signature provider context (providers/implementations/signature/dsa.c)\<close>

text \<open>
  The file is a thin state machine around collaborators that live elsewhere in the
  library: the key object and its raw sign and verify primitives, the digest objects and
  their streaming state, the DER writer, the parameter accessors and the allocator.
  Each collaborator is a field of the record \<open>env\<close>, so every function of dsa.c is a HOL
  function of the environment, its arguments and the context it works on. Pointers that
  the code compares with NULL are options. A function returns its C return value, the
  context as the call leaves it, and the list of resource and error-queue events of the
  call (references taken and dropped, allocations, \<open>ERR_raise\<close>).
\<close>

subsection \<open>Types\<close>

type_synonym byte = "8 word"
type_synonym size_t = "64 word"

text \<open>\<open>int operation\<close>: a zeroed context holds 0; the two init functions store
  \<open>EVP_PKEY_OP_SIGN\<close> or \<open>EVP_PKEY_OP_VERIFY\<close>.\<close>

datatype operation = EVP_PKEY_OP_UNDEFINED | EVP_PKEY_OP_SIGN | EVP_PKEY_OP_VERIFY

text \<open>The reason codes this file raises on the error queue (library \<open>ERR_LIB_PROV\<close>).\<close>

datatype reason =
    ERR_R_MALLOC_FAILURE
  | PROV_R_INVALID_DIGEST
  | PROV_R_DIGEST_NOT_ALLOWED
  | PROV_R_INVALID_KEY_LENGTH

text \<open>
  \<open>unsigned char *aid\<close> points into the \<open>aid_buf\<close> array of a context: \<open>Aid_at a off\<close> is
  the address \<open>off\<close> bytes into the \<open>aid_buf\<close> of the context allocated at \<open>a\<close>.
\<close>

datatype aid_ptr = Aid_NULL | Aid_at nat nat

text \<open>
  Events of a call. DSA keys and digest objects are named by their addresses
  (natural numbers); \<open>'mdctx\<close> is the state of a streaming digest computation.
\<close>

datatype 'mdctx event =
    ERR_raise reason string
  | E_OPENSSL_zalloc nat
  | E_OPENSSL_free nat
  | E_OPENSSL_strdup string
  | E_OPENSSL_free_str "string option"
  | E_DSA_up_ref nat
  | E_DSA_free "nat option"
  | E_EVP_MD_fetch "nat option"
  | E_EVP_MD_up_ref nat
  | E_EVP_MD_free "nat option"
  | E_EVP_MD_CTX_new 'mdctx
  | E_EVP_MD_CTX_free "'mdctx option"

text \<open>
  \<open>PROV_DSA_CTX\<close>. The field \<open>addr\<close> is not a field of the C struct: it is the address
  the struct was allocated at, kept so that \<open>aid\<close> can say whose buffer it points into.
\<close>

record 'mdctx PROV_DSA_CTX =
  addr :: nat
  libctx :: nat
  propq :: "string option"
  dsa :: "nat option"
  flag_allow_md :: bool
  mdname :: string
  aid_buf :: "byte list"
  aid :: aid_ptr
  aid_len :: nat
  md :: "nat option"
  mdctx :: "'mdctx option"
  operation :: operation

subsection \<open>The collaborators\<close>

text \<open>
  What dsa.c calls and does not define. \<open>'p\<close> is one \<open>OSSL_PARAM\<close> slot.
  \<^item> \<open>OPENSSL_zalloc\<close>: the address of the fresh block, \<open>None\<close> when allocation fails.
  \<^item> \<open>OPENSSL_strdup\<close>: the copy, \<open>None\<close> when allocation fails.
  \<^item> \<open>EVP_MD_fetch libctx name props\<close>: the digest object, \<open>None\<close> when it cannot be fetched.
  \<^item> \<open>ossl_digest_get_approved_nid\<close>: the NID of a digest on the allow-list,
    \<open>NID_undef\<close> otherwise.
  \<^item> \<open>ossl_DER_w_algorithmIdentifier_DSA_with_MD buf key nid\<close> stands for the chain
    \<open>WPACKET_init_der && ossl_DER_w_algorithmIdentifier_DSA_with_MD && WPACKET_finish\<close>
    on the buffer \<open>buf\<close>: whether all three succeeded, the buffer as they leave it, and
    the total number of bytes written (DER is written from the end of the buffer).
  \<^item> \<open>ossl_dsa_sign_int tbs key\<close>: the return value and the signature written.
  \<^item> \<open>DSA_verify tbs sig key\<close>: 1 valid, 0 not valid, -1 error.
  \<^item> \<open>EVP_DigestInit_ex\<close>, \<open>EVP_DigestUpdate\<close>, \<open>EVP_DigestFinal_ex\<close>,
    \<open>EVP_MD_CTX_copy_ex\<close>, \<open>EVP_MD_CTX_set_params\<close>: the result and the stream state
    they leave.
  \<^item> \<open>OSSL_PARAM_set_octet_string p val len\<close>: \<open>val\<close> is \<open>None\<close> for a NULL pointer,
    else the \<open>len\<close> bytes it points to.
\<close>

record ('mdctx, 'p) env =
  ossl_prov_is_running :: bool
  OPENSSL_zalloc :: "nat option"
  OPENSSL_strdup :: "string \<Rightarrow> string option"
  PROV_LIBCTX_OF :: "nat \<Rightarrow> nat"
  OSSL_MAX_NAME_SIZE :: nat
  OSSL_MAX_PROPQUERY_SIZE :: nat
  OSSL_MAX_ALGORITHM_ID_SIZE :: nat
  EVP_MD_fetch :: "nat \<Rightarrow> string \<Rightarrow> string option \<Rightarrow> nat option"
  ossl_digest_get_approved_nid :: "nat option \<Rightarrow> int"
  ossl_DER_w_algorithmIdentifier_DSA_with_MD ::
    "byte list \<Rightarrow> nat option \<Rightarrow> int \<Rightarrow> bool \<times> byte list \<times> nat"
  EVP_MD_size :: "nat \<Rightarrow> int"
  EVP_MD_up_ref :: "nat \<Rightarrow> bool"
  DSA_up_ref :: "nat \<Rightarrow> bool"
  DSA_size :: "nat option \<Rightarrow> int"
  ossl_dsa_check_key :: "nat \<Rightarrow> bool \<Rightarrow> bool"
  ossl_dsa_sign_int :: "byte list \<Rightarrow> nat option \<Rightarrow> int \<times> byte list"
  DSA_verify :: "byte list \<Rightarrow> byte list \<Rightarrow> nat option \<Rightarrow> int"
  EVP_MD_CTX_new :: "'mdctx option"
  EVP_DigestInit_ex :: "'mdctx \<Rightarrow> nat option \<Rightarrow> bool \<times> 'mdctx"
  EVP_DigestUpdate :: "'mdctx \<Rightarrow> byte list \<Rightarrow> int \<times> 'mdctx"
  EVP_DigestFinal_ex :: "'mdctx \<Rightarrow> bool \<times> byte list \<times> 'mdctx"
  EVP_MD_CTX_copy_ex :: "'mdctx \<Rightarrow> 'mdctx \<Rightarrow> bool \<times> 'mdctx"
  EVP_MD_CTX_set_params :: "'mdctx \<Rightarrow> (string \<times> 'p) list option \<Rightarrow> int \<times> 'mdctx"
  OSSL_PARAM_get_utf8_string :: "'p \<Rightarrow> nat \<Rightarrow> string option"
  OSSL_PARAM_set_utf8_string :: "'p \<Rightarrow> string \<Rightarrow> bool \<times> 'p"
  OSSL_PARAM_set_octet_string :: "'p \<Rightarrow> byte list option \<Rightarrow> nat \<Rightarrow> bool \<times> 'p"

text \<open>Constants of headers outside this file: the NIDs and the parameter keys.\<close>

definition NID_undef :: int where
  "NID_undef = 0"

definition NID_sha1 :: int where
  "NID_sha1 = 64"

definition OSSL_SIGNATURE_PARAM_ALGORITHM_ID :: string where
  "OSSL_SIGNATURE_PARAM_ALGORITHM_ID = ''algorithm-id''"

definition OSSL_SIGNATURE_PARAM_DIGEST :: string where
  "OSSL_SIGNATURE_PARAM_DIGEST = ''digest''"

definition OSSL_SIGNATURE_PARAM_PROPERTIES :: string where
  "OSSL_SIGNATURE_PARAM_PROPERTIES = ''properties''"

text \<open>
  Modelled from the spec: \<open>ossl_digest_get_approved_nid_with_sha1\<close>
  (providers/common/securitycheck.c is not among the sources). The spec: a digest is
  approved only if it is on an allow-list, except one legacy algorithm (SHA-1), which is
  approved for Verify operations only, never for Sign.
\<close>

definition ossl_digest_get_approved_nid_with_sha1 ::
  "('mdctx, 'p) env \<Rightarrow> nat option \<Rightarrow> bool \<Rightarrow> int" where
  "ossl_digest_get_approved_nid_with_sha1 env m sha1_allowed =
     (let mdnid = ossl_digest_get_approved_nid env m
      in if mdnid = NID_sha1 \<and> \<not> sha1_allowed then NID_undef else mdnid)"

subsection \<open>Parameter arrays\<close>

text \<open>\<open>OSSL_PARAM_locate\<close>: the first slot with the key. \<open>OSSL_PARAM_write\<close> stores what
  a setter left in that slot.\<close>

fun OSSL_PARAM_locate :: "(string \<times> 'p) list \<Rightarrow> string \<Rightarrow> 'p option" where
  "OSSL_PARAM_locate [] k = None"
| "OSSL_PARAM_locate ((k', p) # ps) k = (if k' = k then Some p else OSSL_PARAM_locate ps k)"

fun OSSL_PARAM_write :: "(string \<times> 'p) list \<Rightarrow> string \<Rightarrow> 'p \<Rightarrow> (string \<times> 'p) list" where
  "OSSL_PARAM_write [] k v = []"
| "OSSL_PARAM_write ((k', p) # ps) k v =
     (if k' = k then (k', v) # ps else (k', p) # OSSL_PARAM_write ps k v)"

subsection \<open>The functions of dsa.c\<close>

definition dsa_get_md_size :: "('mdctx, 'p) env \<Rightarrow> 'mdctx PROV_DSA_CTX \<Rightarrow> size_t" where
  "dsa_get_md_size env pdsactx =
     (case md pdsactx of
        Some m \<Rightarrow> of_int (EVP_MD_size env m)
      | None \<Rightarrow> 0)"

definition zeroed :: "('mdctx, 'p) env \<Rightarrow> nat \<Rightarrow> 'mdctx PROV_DSA_CTX" where
  "zeroed env a =
     \<lparr> addr = a, libctx = 0, propq = None, dsa = None, flag_allow_md = False,
       mdname = [], aid_buf = replicate (OSSL_MAX_ALGORITHM_ID_SIZE env) 0,
       aid = Aid_NULL, aid_len = 0, md = None, mdctx = None,
       operation = EVP_PKEY_OP_UNDEFINED \<rparr>"

definition dsa_newctx ::
  "('mdctx, 'p) env \<Rightarrow> nat \<Rightarrow> string option
     \<Rightarrow> 'mdctx PROV_DSA_CTX option \<times> 'mdctx event list" where
  "dsa_newctx env provctx propq' =
     (if \<not> ossl_prov_is_running env then (None, [])
      else case OPENSSL_zalloc env of
        None \<Rightarrow> (None, [])
      | Some a \<Rightarrow>
          (let pdsactx = (zeroed env a)
                 \<lparr> libctx := PROV_LIBCTX_OF env provctx, flag_allow_md := True \<rparr>
           in case propq' of
                None \<Rightarrow> (Some pdsactx, [E_OPENSSL_zalloc a])
              | Some s \<Rightarrow>
                  (case OPENSSL_strdup env s of
                     None \<Rightarrow>
                       (None, [E_OPENSSL_zalloc a, E_OPENSSL_free a,
                               ERR_raise ERR_R_MALLOC_FAILURE []])
                   | Some s' \<Rightarrow>
                       (Some (pdsactx\<lparr> propq := Some s' \<rparr>),
                        [E_OPENSSL_zalloc a, E_OPENSSL_strdup s']))))"

definition dsa_setup_md ::
  "('mdctx, 'p) env \<Rightarrow> 'mdctx PROV_DSA_CTX \<Rightarrow> string option \<Rightarrow> string option
     \<Rightarrow> int \<times> 'mdctx PROV_DSA_CTX \<times> 'mdctx event list" where
  "dsa_setup_md env ctx mdname' mdprops' =
     (let mdprops = (case mdprops' of None \<Rightarrow> propq ctx | Some s \<Rightarrow> Some s)
      in case mdname' of
        None \<Rightarrow> (1, ctx, [])
      | Some name \<Rightarrow>
          (let sha1_allowed = (operation ctx \<noteq> EVP_PKEY_OP_SIGN);
               m = EVP_MD_fetch env (libctx ctx) name mdprops;
               md_nid = ossl_digest_get_approved_nid_with_sha1 env m sha1_allowed;
               mdname_len = length name
           in if m = None \<or> md_nid = NID_undef then
                (0, ctx,
                 [E_EVP_MD_fetch m]
                 @ (if m = None
                    then [ERR_raise PROV_R_INVALID_DIGEST (name @ '' could not be fetched'')]
                    else [])
                 @ (if md_nid = NID_undef
                    then [ERR_raise PROV_R_DIGEST_NOT_ALLOWED (''digest='' @ name)]
                    else [])
                 @ (if mdname_len \<ge> OSSL_MAX_NAME_SIZE env
                    then [ERR_raise PROV_R_INVALID_DIGEST
                            (name @ '' exceeds name buffer length'')]
                    else [])
                 @ [E_EVP_MD_free m])
              else
                (case ossl_DER_w_algorithmIdentifier_DSA_with_MD env (aid_buf ctx) (dsa ctx) md_nid of
                   (ok, buf, written) \<Rightarrow>
                     (1,
                      ctx\<lparr> aid_buf := buf,
                           aid_len := (if ok then written else 0),
                           aid := (if ok
                                   then Aid_at (addr ctx)
                                          (OSSL_MAX_ALGORITHM_ID_SIZE env - written)
                                   else aid ctx),
                           mdctx := None,
                           md := m,
                           mdname := take (OSSL_MAX_NAME_SIZE env - 1) name \<rparr>,
                      [E_EVP_MD_fetch m, E_EVP_MD_CTX_free (mdctx ctx),
                       E_EVP_MD_free (md ctx)]))))"

definition dsa_signverify_init ::
  "('mdctx, 'p) env \<Rightarrow> 'mdctx PROV_DSA_CTX option \<Rightarrow> nat option \<Rightarrow> operation
     \<Rightarrow> int \<times> 'mdctx PROV_DSA_CTX option \<times> 'mdctx event list" where
  "dsa_signverify_init env vpdsactx vdsa op =
     (if \<not> ossl_prov_is_running env then (0, vpdsactx, [])
      else case vpdsactx of
        None \<Rightarrow> (0, None, [])
      | Some pdsactx \<Rightarrow>
          (case vdsa of
             None \<Rightarrow> (0, Some pdsactx, [])
           | Some k \<Rightarrow>
               if \<not> DSA_up_ref env k then (0, Some pdsactx, [])
               else
                 (let c = pdsactx\<lparr> dsa := Some k, operation := op \<rparr>;
                      evs = [E_DSA_up_ref k, E_DSA_free (dsa pdsactx)]
                  in if \<not> ossl_dsa_check_key env k (op = EVP_PKEY_OP_SIGN)
                     then (0, Some c, evs @ [ERR_raise PROV_R_INVALID_KEY_LENGTH []])
                     else (1, Some c, evs))))"

definition dsa_sign_init ::
  "('mdctx, 'p) env \<Rightarrow> 'mdctx PROV_DSA_CTX option \<Rightarrow> nat option
     \<Rightarrow> int \<times> 'mdctx PROV_DSA_CTX option \<times> 'mdctx event list" where
  "dsa_sign_init env vpdsactx vdsa = dsa_signverify_init env vpdsactx vdsa EVP_PKEY_OP_SIGN"

definition dsa_verify_init ::
  "('mdctx, 'p) env \<Rightarrow> 'mdctx PROV_DSA_CTX option \<Rightarrow> nat option
     \<Rightarrow> int \<times> 'mdctx PROV_DSA_CTX option \<times> 'mdctx event list" where
  "dsa_verify_init env vpdsactx vdsa = dsa_signverify_init env vpdsactx vdsa EVP_PKEY_OP_VERIFY"

text \<open>
  \<open>dsa_sign\<close>. The argument \<open>sig\<close> says whether the caller passed an output buffer
  (\<open>False\<close>: \<open>sig == NULL\<close>). The result is \<open>None\<close> for the return value 0; for 1 it holds
  \<open>*siglen\<close> and, when a signature was written, its bytes.
\<close>

definition dsa_sign ::
  "('mdctx, 'p) env \<Rightarrow> 'mdctx PROV_DSA_CTX \<Rightarrow> bool \<Rightarrow> size_t \<Rightarrow> byte list
     \<Rightarrow> (size_t \<times> byte list option) option" where
  "dsa_sign env pdsactx sig sigsize tbs =
     (let dsasize = (of_int (DSA_size env (dsa pdsactx)) :: size_t);
          mdsize = dsa_get_md_size env pdsactx;
          tbslen = (of_nat (length tbs) :: size_t)
      in if \<not> ossl_prov_is_running env then None
         else if \<not> sig then Some (dsasize, None)
         else if sigsize < dsasize then None
         else if mdsize \<noteq> 0 \<and> tbslen \<noteq> mdsize then None
         else (case ossl_dsa_sign_int env tbs (dsa pdsactx) of
                 (ret, s) \<Rightarrow>
                   if ret \<le> 0 then None
                   else Some (of_nat (length s), Some s)))"

definition dsa_verify ::
  "('mdctx, 'p) env \<Rightarrow> 'mdctx PROV_DSA_CTX \<Rightarrow> byte list \<Rightarrow> byte list \<Rightarrow> int" where
  "dsa_verify env pdsactx sig tbs =
     (let mdsize = dsa_get_md_size env pdsactx;
          tbslen = (of_nat (length tbs) :: size_t)
      in if \<not> ossl_prov_is_running env \<or> (mdsize \<noteq> 0 \<and> tbslen \<noteq> mdsize) then 0
         else DSA_verify env tbs sig (dsa pdsactx))"

definition dsa_digest_signverify_init ::
  "('mdctx, 'p) env \<Rightarrow> 'mdctx PROV_DSA_CTX \<Rightarrow> string option \<Rightarrow> nat option \<Rightarrow> operation
     \<Rightarrow> int \<times> 'mdctx PROV_DSA_CTX \<times> 'mdctx event list" where
  "dsa_digest_signverify_init env pdsactx mdname' vdsa op =
     (if \<not> ossl_prov_is_running env then (0, pdsactx, [])
      else
        (let c1 = pdsactx\<lparr> flag_allow_md := False \<rparr>
         in case dsa_signverify_init env (Some c1) vdsa op of
              (r1, None, evs1) \<Rightarrow> (0, c1, evs1)
            | (r1, Some c2, evs1) \<Rightarrow>
                if r1 = 0 then (0, c2, evs1)
                else
                  (case dsa_setup_md env c2 mdname' None of
                     (r2, c3, evs2) \<Rightarrow>
                       if r2 = 0 then (0, c3, evs1 @ evs2)
                       else
                         (case EVP_MD_CTX_new env of
                            None \<Rightarrow>
                              (0, c3\<lparr> mdctx := None, md := None \<rparr>,
                               evs1 @ evs2 @ [E_EVP_MD_CTX_free None, E_EVP_MD_free (md c3)])
                          | Some m0 \<Rightarrow>
                              (case EVP_DigestInit_ex env m0 (md c3) of
                                 (ok, m1) \<Rightarrow>
                                   if ok
                                   then (1, c3\<lparr> mdctx := Some m1 \<rparr>,
                                         evs1 @ evs2 @ [E_EVP_MD_CTX_new m0])
                                   else (0, c3\<lparr> mdctx := None, md := None \<rparr>,
                                         evs1 @ evs2 @
                                         [E_EVP_MD_CTX_new m0, E_EVP_MD_CTX_free (Some m1),
                                          E_EVP_MD_free (md c3)]))))))"

definition dsa_digest_sign_init ::
  "('mdctx, 'p) env \<Rightarrow> 'mdctx PROV_DSA_CTX \<Rightarrow> string option \<Rightarrow> nat option
     \<Rightarrow> int \<times> 'mdctx PROV_DSA_CTX \<times> 'mdctx event list" where
  "dsa_digest_sign_init env pdsactx mdname' vdsa =
     dsa_digest_signverify_init env pdsactx mdname' vdsa EVP_PKEY_OP_SIGN"

definition dsa_digest_verify_init ::
  "('mdctx, 'p) env \<Rightarrow> 'mdctx PROV_DSA_CTX \<Rightarrow> string option \<Rightarrow> nat option
     \<Rightarrow> int \<times> 'mdctx PROV_DSA_CTX \<times> 'mdctx event list" where
  "dsa_digest_verify_init env pdsactx mdname' vdsa =
     dsa_digest_signverify_init env pdsactx mdname' vdsa EVP_PKEY_OP_VERIFY"

definition dsa_digest_signverify_update ::
  "('mdctx, 'p) env \<Rightarrow> 'mdctx PROV_DSA_CTX option \<Rightarrow> byte list
     \<Rightarrow> int \<times> 'mdctx PROV_DSA_CTX option" where
  "dsa_digest_signverify_update env vpdsactx data =
     (case vpdsactx of
        None \<Rightarrow> (0, None)
      | Some pdsactx \<Rightarrow>
          (case mdctx pdsactx of
             None \<Rightarrow> (0, Some pdsactx)
           | Some m \<Rightarrow>
               (case EVP_DigestUpdate env m data of
                  (r, m') \<Rightarrow> (r, Some (pdsactx\<lparr> mdctx := Some m' \<rparr>)))))"

text \<open>
  \<open>dsa_digest_sign_final\<close>. With \<open>sig == NULL\<close> the digest is not finalised: \<open>dsa_sign\<close>
  is called with \<open>dlen = 0\<close> bytes of the local buffer.
\<close>

definition dsa_digest_sign_final ::
  "('mdctx, 'p) env \<Rightarrow> 'mdctx PROV_DSA_CTX option \<Rightarrow> bool \<Rightarrow> size_t
     \<Rightarrow> (size_t \<times> byte list option) option \<times> 'mdctx PROV_DSA_CTX option" where
  "dsa_digest_sign_final env vpdsactx sig sigsize =
     (if \<not> ossl_prov_is_running env then (None, vpdsactx)
      else case vpdsactx of
        None \<Rightarrow> (None, None)
      | Some pdsactx \<Rightarrow>
          (case mdctx pdsactx of
             None \<Rightarrow> (None, Some pdsactx)
           | Some m \<Rightarrow>
               if sig then
                 (case EVP_DigestFinal_ex env m of
                    (ok, digest, m') \<Rightarrow>
                      if \<not> ok then (None, Some (pdsactx\<lparr> mdctx := Some m' \<rparr>))
                      else
                        (let c = pdsactx\<lparr> mdctx := Some m', flag_allow_md := True \<rparr>
                         in (dsa_sign env c sig sigsize digest, Some c)))
               else
                 (let c = pdsactx\<lparr> flag_allow_md := True \<rparr>
                  in (dsa_sign env c sig sigsize [], Some c))))"

definition dsa_digest_verify_final ::
  "('mdctx, 'p) env \<Rightarrow> 'mdctx PROV_DSA_CTX option \<Rightarrow> byte list
     \<Rightarrow> int \<times> 'mdctx PROV_DSA_CTX option" where
  "dsa_digest_verify_final env vpdsactx sig =
     (if \<not> ossl_prov_is_running env then (0, vpdsactx)
      else case vpdsactx of
        None \<Rightarrow> (0, None)
      | Some pdsactx \<Rightarrow>
          (case mdctx pdsactx of
             None \<Rightarrow> (0, Some pdsactx)
           | Some m \<Rightarrow>
               (case EVP_DigestFinal_ex env m of
                  (ok, digest, m') \<Rightarrow>
                    if \<not> ok then (0, Some (pdsactx\<lparr> mdctx := Some m' \<rparr>))
                    else
                      (let c = pdsactx\<lparr> mdctx := Some m', flag_allow_md := True \<rparr>
                       in (dsa_verify env c sig digest, Some c)))))"

definition dsa_freectx :: "'mdctx PROV_DSA_CTX \<Rightarrow> 'mdctx event list" where
  "dsa_freectx ctx =
     [E_OPENSSL_free_str (propq ctx), E_EVP_MD_CTX_free (mdctx ctx), E_EVP_MD_free (md ctx),
      E_DSA_free (dsa ctx), E_OPENSSL_free (addr ctx)]"

text \<open>
  \<open>dsa_dupctx\<close>. \<open>*dstctx = *srcctx\<close> copies every field of the struct, the pointer
  \<open>aid\<close> among them; the four pointers \<open>dsa\<close>, \<open>md\<close>, \<open>mdctx\<close> and \<open>propq\<close> are then cleared
  and acquired again one by one. Every failure goes to \<open>err\<close>, which frees the
  duplicate as built so far.
\<close>

definition dsa_dupctx ::
  "('mdctx, 'p) env \<Rightarrow> 'mdctx PROV_DSA_CTX
     \<Rightarrow> 'mdctx PROV_DSA_CTX option \<times> 'mdctx event list" where
  "dsa_dupctx env srcctx =
     (if \<not> ossl_prov_is_running env then (None, [])
      else case OPENSSL_zalloc env of
        None \<Rightarrow> (None, [])
      | Some a \<Rightarrow>
          (let d0 = srcctx\<lparr> addr := a, dsa := None, md := None, mdctx := None,
                            propq := None \<rparr>;
               e0 = [E_OPENSSL_zalloc a]
           in if (case dsa srcctx of None \<Rightarrow> False | Some k \<Rightarrow> \<not> DSA_up_ref env k)
              then (None, e0 @ dsa_freectx d0)
              else
                (let d1 = d0\<lparr> dsa := dsa srcctx \<rparr>;
                     e1 = e0 @ (case dsa srcctx of None \<Rightarrow> [] | Some k \<Rightarrow> [E_DSA_up_ref k])
                 in if (case md srcctx of None \<Rightarrow> False | Some m \<Rightarrow> \<not> EVP_MD_up_ref env m)
                    then (None, e1 @ dsa_freectx d1)
                    else
                      (let d2 = d1\<lparr> md := md srcctx \<rparr>;
                           e2 = e1 @ (case md srcctx of None \<Rightarrow> []
                                      | Some m \<Rightarrow> [E_EVP_MD_up_ref m]);
                           st = (case mdctx srcctx of
                                   None \<Rightarrow> (True, d2, e2)
                                 | Some sm \<Rightarrow>
                                     (case EVP_MD_CTX_new env of
                                        None \<Rightarrow> (False, d2, e2)
                                      | Some nm \<Rightarrow>
                                          (case EVP_MD_CTX_copy_ex env nm sm of
                                             (ok, nm') \<Rightarrow>
                                               (ok, d2\<lparr> mdctx := Some nm' \<rparr>,
                                                e2 @ [E_EVP_MD_CTX_new nm]))))
                       in case st of
                            (ok3, d3, e3) \<Rightarrow>
                              if \<not> ok3 then (None, e3 @ dsa_freectx d3)
                              else
                                (case propq srcctx of
                                   None \<Rightarrow> (Some d3, e3)
                                 | Some s \<Rightarrow>
                                     (case OPENSSL_strdup env s of
                                        None \<Rightarrow> (None, e3 @ dsa_freectx d3)
                                      | Some s' \<Rightarrow>
                                          (Some (d3\<lparr> propq := Some s' \<rparr>),
                                           e3 @ [E_OPENSSL_strdup s'])))))))"

text \<open>
  The memory \<open>aid\<close> is read from: the \<open>aid_buf\<close> of every live context, by address.
  Reading \<open>n\<close> bytes through the pointer gives \<open>None\<close> when the pointer is NULL, or when
  bytes are asked of a context that is no longer allocated.
\<close>

type_synonym store = "nat \<Rightarrow> byte list option"

fun read_aid :: "store \<Rightarrow> aid_ptr \<Rightarrow> nat \<Rightarrow> byte list option" where
  "read_aid st Aid_NULL n = None"
| "read_aid st (Aid_at a off) n =
     (if n = 0 then Some []
      else case st a of None \<Rightarrow> None | Some buf \<Rightarrow> Some (take n (drop off buf)))"

fun store_of :: "'mdctx PROV_DSA_CTX list \<Rightarrow> store" where
  "store_of [] a = None"
| "store_of (c # cs) a = (if addr c = a then Some (aid_buf c) else store_of cs a)"

definition dsa_get_ctx_params ::
  "('mdctx, 'p) env \<Rightarrow> store \<Rightarrow> 'mdctx PROV_DSA_CTX option \<Rightarrow> (string \<times> 'p) list option
     \<Rightarrow> int \<times> (string \<times> 'p) list option" where
  "dsa_get_ctx_params env st vpdsactx params =
     (case vpdsactx of
        None \<Rightarrow> (0, params)
      | Some pdsactx \<Rightarrow>
          (case params of
             None \<Rightarrow> (0, None)
           | Some ps \<Rightarrow>
               (case (case OSSL_PARAM_locate ps OSSL_SIGNATURE_PARAM_ALGORITHM_ID of
                        None \<Rightarrow> (True, ps)
                      | Some p \<Rightarrow>
                          (case OSSL_PARAM_set_octet_string env p
                                  (read_aid st (aid pdsactx) (aid_len pdsactx))
                                  (aid_len pdsactx) of
                             (ok, p') \<Rightarrow>
                               (ok, OSSL_PARAM_write ps OSSL_SIGNATURE_PARAM_ALGORITHM_ID p'))) of
                  (ok1, ps1) \<Rightarrow>
                    if \<not> ok1 then (0, Some ps1)
                    else
                      (case OSSL_PARAM_locate ps1 OSSL_SIGNATURE_PARAM_DIGEST of
                         None \<Rightarrow> (1, Some ps1)
                       | Some p \<Rightarrow>
                           (case OSSL_PARAM_set_utf8_string env p (mdname pdsactx) of
                              (ok2, p') \<Rightarrow>
                                (if ok2 then 1 else 0,
                                 Some (OSSL_PARAM_write ps1 OSSL_SIGNATURE_PARAM_DIGEST p')))))))"

definition dsa_set_ctx_params ::
  "('mdctx, 'p) env \<Rightarrow> 'mdctx PROV_DSA_CTX option \<Rightarrow> (string \<times> 'p) list option
     \<Rightarrow> int \<times> 'mdctx PROV_DSA_CTX option \<times> 'mdctx event list" where
  "dsa_set_ctx_params env vpdsactx params =
     (case vpdsactx of
        None \<Rightarrow> (0, None, [])
      | Some pdsactx \<Rightarrow>
          (case params of
             None \<Rightarrow> (0, Some pdsactx, [])
           | Some ps \<Rightarrow>
               (case OSSL_PARAM_locate ps OSSL_SIGNATURE_PARAM_DIGEST of
                  None \<Rightarrow> (1, Some pdsactx, [])
                | Some p \<Rightarrow>
                    if \<not> flag_allow_md pdsactx then (0, Some pdsactx, [])
                    else
                      (case OSSL_PARAM_get_utf8_string env p (OSSL_MAX_NAME_SIZE env) of
                         None \<Rightarrow> (0, Some pdsactx, [])
                       | Some name \<Rightarrow>
                           (case (case OSSL_PARAM_locate ps OSSL_SIGNATURE_PARAM_PROPERTIES of
                                    None \<Rightarrow> Some []
                                  | Some propsp \<Rightarrow>
                                      OSSL_PARAM_get_utf8_string env propsp
                                        (OSSL_MAX_PROPQUERY_SIZE env)) of
                              None \<Rightarrow> (0, Some pdsactx, [])
                            | Some mdprops \<Rightarrow>
                                (case dsa_setup_md env pdsactx (Some name) (Some mdprops) of
                                   (r, c, evs) \<Rightarrow>
                                     (if r = 0 then 0 else 1, Some c, evs)))))))"

definition dsa_set_ctx_md_params ::
  "('mdctx, 'p) env \<Rightarrow> 'mdctx PROV_DSA_CTX \<Rightarrow> (string \<times> 'p) list option
     \<Rightarrow> int \<times> 'mdctx PROV_DSA_CTX" where
  "dsa_set_ctx_md_params env pdsactx params =
     (case mdctx pdsactx of
        None \<Rightarrow> (0, pdsactx)
      | Some m \<Rightarrow>
          (case EVP_MD_CTX_set_params env m params of
             (r, m') \<Rightarrow> (r, pdsactx\<lparr> mdctx := Some m' \<rparr>)))"

subsection \<open>Reachable contexts\<close>

text \<open>
  The contexts a caller can hold: made by \<open>dsa_newctx\<close> or \<open>dsa_dupctx\<close> and changed by
  the entry points of the dispatch table, with any arguments, each call in an
  environment that satisfies \<open>P\<close>.
\<close>

inductive reach ::
  "(('mdctx, 'p) env \<Rightarrow> bool) \<Rightarrow> 'mdctx PROV_DSA_CTX \<Rightarrow> bool"
  for P :: "('mdctx, 'p) env \<Rightarrow> bool" where
  reach_newctx:
    "P env \<Longrightarrow> dsa_newctx env provctx pq = (Some c, evs) \<Longrightarrow> reach P c"
| reach_dupctx:
    "reach P c \<Longrightarrow> P env \<Longrightarrow> dsa_dupctx env c = (Some c', evs) \<Longrightarrow> reach P c'"
| reach_signverify_init:
    "reach P c \<Longrightarrow> P env \<Longrightarrow> dsa_signverify_init env (Some c) vdsa op = (r, Some c', evs)
       \<Longrightarrow> reach P c'"
| reach_digest_signverify_init:
    "reach P c \<Longrightarrow> P env \<Longrightarrow> dsa_digest_signverify_init env c name vdsa op = (r, c', evs)
       \<Longrightarrow> reach P c'"
| reach_digest_signverify_update:
    "reach P c \<Longrightarrow> P env \<Longrightarrow> dsa_digest_signverify_update env (Some c) data = (r, Some c')
       \<Longrightarrow> reach P c'"
| reach_digest_sign_final:
    "reach P c \<Longrightarrow> P env \<Longrightarrow> dsa_digest_sign_final env (Some c) sig sigsize = (res, Some c')
       \<Longrightarrow> reach P c'"
| reach_digest_verify_final:
    "reach P c \<Longrightarrow> P env \<Longrightarrow> dsa_digest_verify_final env (Some c) sg = (r, Some c')
       \<Longrightarrow> reach P c'"
| reach_set_ctx_params:
    "reach P c \<Longrightarrow> P env \<Longrightarrow> dsa_set_ctx_params env (Some c) params = (r, Some c', evs)
       \<Longrightarrow> reach P c'"
| reach_set_ctx_md_params:
    "reach P c \<Longrightarrow> P env \<Longrightarrow> dsa_set_ctx_md_params env c params = (r, c')
       \<Longrightarrow> reach P c'"

text \<open>
  A digest stream cannot be initialised without a digest: \<open>EVP_DigestInit_ex\<close> on a fresh
  \<open>EVP_MD_CTX\<close> with a NULL type fails.
\<close>

definition digest_init_needs_md :: "('mdctx, 'p) env \<Rightarrow> bool" where
  "digest_init_needs_md env = (\<forall>m. \<not> fst (EVP_DigestInit_ex env m None))"

text \<open>The key's primitives agree: what the raw sign produces, the raw verify accepts.\<close>

definition dsa_key_valid :: "('mdctx, 'p) env \<Rightarrow> nat option \<Rightarrow> bool" where
  "dsa_key_valid env k =
     (\<forall>tbs. 0 < fst (ossl_dsa_sign_int env tbs k)
         \<longrightarrow> DSA_verify env tbs (snd (ossl_dsa_sign_int env tbs k)) k = 1)"

text \<open>Feeding a list of chunks, one \<open>dsa_digest_signverify_update\<close> call each.\<close>

fun stream_updates ::
  "('mdctx, 'p) env \<Rightarrow> 'mdctx PROV_DSA_CTX option \<Rightarrow> byte list list
     \<Rightarrow> 'mdctx PROV_DSA_CTX option" where
  "stream_updates env c [] = c"
| "stream_updates env c (d # ds) =
     stream_updates env (snd (dsa_digest_signverify_update env c d)) ds"

subsection \<open>Predicates used in the statements\<close>


text \<open>A context with its three algorithm-identifier fields blanked: two contexts with
  the same image differ in those fields at most.\<close>

definition forget_aid :: "'mdctx PROV_DSA_CTX \<Rightarrow> 'mdctx PROV_DSA_CTX" where
  "forget_aid c = c\<lparr> aid_buf := [], aid := Aid_NULL, aid_len := 0 \<rparr>"

text \<open>
  What a list of events leaves behind: references to a key and to a digest object
  (a fetch returns a reference), live digest streams, live string copies, and live
  context blocks.
\<close>

definition dsa_refs :: "'mdctx event list \<Rightarrow> nat \<Rightarrow> int" where
  "dsa_refs evs k =
     int (count_list evs (E_DSA_up_ref k)) - int (count_list evs (E_DSA_free (Some k)))"

definition md_refs :: "'mdctx event list \<Rightarrow> nat \<Rightarrow> int" where
  "md_refs evs m =
     int (count_list evs (E_EVP_MD_up_ref m)) + int (count_list evs (E_EVP_MD_fetch (Some m)))
     - int (count_list evs (E_EVP_MD_free (Some m)))"

fun mdctx_live :: "'mdctx event list \<Rightarrow> int" where
  "mdctx_live [] = 0"
| "mdctx_live (E_EVP_MD_CTX_new m # evs) = mdctx_live evs + 1"
| "mdctx_live (E_EVP_MD_CTX_free (Some m) # evs) = mdctx_live evs - 1"
| "mdctx_live (e # evs) = mdctx_live evs"

fun strings_live :: "'mdctx event list \<Rightarrow> int" where
  "strings_live [] = 0"
| "strings_live (E_OPENSSL_strdup s # evs) = strings_live evs + 1"
| "strings_live (E_OPENSSL_free_str (Some s) # evs) = strings_live evs - 1"
| "strings_live (e # evs) = strings_live evs"

definition blocks_live :: "'mdctx event list \<Rightarrow> nat \<Rightarrow> int" where
  "blocks_live evs a =
     int (count_list evs (E_OPENSSL_zalloc a)) - int (count_list evs (E_OPENSSL_free a))"

text \<open>The events leave exactly what the context \<open>d\<close> points to; the events leave
  nothing.\<close>

definition dup_holds :: "'mdctx PROV_DSA_CTX \<Rightarrow> 'mdctx event list \<Rightarrow> bool" where
  "dup_holds d evs =
     ((\<forall>k. dsa_refs evs k = (if dsa d = Some k then 1 else 0))
      \<and> (\<forall>m. md_refs evs m = (if md d = Some m then 1 else 0))
      \<and> mdctx_live evs = (if mdctx d = None then 0 else 1)
      \<and> strings_live evs = (if propq d = None then 0 else 1)
      \<and> (\<forall>a. blocks_live evs a = (if a = addr d then 1 else 0)))"

definition balanced :: "'mdctx event list \<Rightarrow> bool" where
  "balanced evs =
     ((\<forall>k. dsa_refs evs k = 0) \<and> (\<forall>m. md_refs evs m = 0) \<and> mdctx_live evs = 0
      \<and> strings_live evs = 0 \<and> (\<forall>a. blocks_live evs a = 0))"

text \<open>The duplicate \<open>dst\<close> is a full copy of \<open>src\<close>: the same key and digest object, a
  new stream copied from the source's, a copy of the property query, and every other
  field of the struct by value.\<close>

definition dup_copies ::
  "('mdctx, 'p) env \<Rightarrow> 'mdctx PROV_DSA_CTX \<Rightarrow> 'mdctx PROV_DSA_CTX \<Rightarrow> bool" where
  "dup_copies env src dst =
     (OPENSSL_zalloc env = Some (addr dst)
      \<and> dsa dst = dsa src \<and> md dst = md src
      \<and> (case mdctx src of
           None \<Rightarrow> mdctx dst = None
         | Some sm \<Rightarrow> (\<exists>nm nm'. EVP_MD_CTX_new env = Some nm
               \<and> EVP_MD_CTX_copy_ex env nm sm = (True, nm') \<and> mdctx dst = Some nm'))
      \<and> propq dst = (case propq src of None \<Rightarrow> None | Some s \<Rightarrow> OPENSSL_strdup env s)
      \<and> (propq src = None \<longleftrightarrow> propq dst = None)
      \<and> libctx dst = libctx src \<and> flag_allow_md dst = flag_allow_md src
      \<and> mdname dst = mdname src \<and> aid_buf dst = aid_buf src \<and> aid dst = aid src
      \<and> aid_len dst = aid_len src \<and> operation dst = operation src)"

subsection \<open>A concrete environment\<close>

text \<open>
  A small environment on which every function can be evaluated: three digests
  (SHA1, SHA256 and SHA512 at addresses 1, 2 and 3, each with a two-byte output), a
  four-byte identifier buffer whose encoder writes the NID in two bytes, a key whose signature of
  a message is the message reversed, and a digest stream that collects its input.
\<close>

datatype demo_param = P_unset | P_utf8 string | P_octet "byte list"

definition demo_env :: "(byte list, demo_param) env" where
  "demo_env =
     \<lparr> ossl_prov_is_running = True,
       OPENSSL_zalloc = Some 1,
       OPENSSL_strdup = (\<lambda>s. Some s),
       PROV_LIBCTX_OF = (\<lambda>p. p),
       OSSL_MAX_NAME_SIZE = 50,
       OSSL_MAX_PROPQUERY_SIZE = 256,
       OSSL_MAX_ALGORITHM_ID_SIZE = 4,
       EVP_MD_fetch = (\<lambda>l n p. if n = ''SHA1'' then Some 1
                               else if n = ''SHA256'' then Some 2
                               else if n = ''SHA512'' then Some 3 else None),
       ossl_digest_get_approved_nid = (\<lambda>m. if m = Some 1 then 64
                                           else if m = Some 2 then 672
                                           else if m = Some 3 then 674 else 0),
       ossl_DER_w_algorithmIdentifier_DSA_with_MD =
         (\<lambda>buf k nid. (True, take (length buf - 2) buf
                          @ [of_int (nid div 256), of_int (nid mod 256)], 2)),
       EVP_MD_size = (\<lambda>m. 2),
       EVP_MD_up_ref = (\<lambda>m. True),
       DSA_up_ref = (\<lambda>k. True),
       DSA_size = (\<lambda>k. 4),
       ossl_dsa_check_key = (\<lambda>k s. True),
       ossl_dsa_sign_int = (\<lambda>tbs k. (1, rev tbs)),
       DSA_verify = (\<lambda>tbs sg k. if sg = rev tbs then 1 else 0),
       EVP_MD_CTX_new = Some [],
       EVP_DigestInit_ex = (\<lambda>m d. (d \<noteq> None, [])),
       EVP_DigestUpdate = (\<lambda>m bs. (1, m @ bs)),
       EVP_DigestFinal_ex = (\<lambda>m. (True, take 2 (m @ [0, 0]), m)),
       EVP_MD_CTX_copy_ex = (\<lambda>d s. (True, s)),
       EVP_MD_CTX_set_params = (\<lambda>m ps. (1, m)),
       OSSL_PARAM_get_utf8_string =
         (\<lambda>p n. case p of P_utf8 s \<Rightarrow> (if length s < n then Some s else None)
                 | _ \<Rightarrow> None),
       OSSL_PARAM_set_utf8_string = (\<lambda>p s. (True, P_utf8 s)),
       OSSL_PARAM_set_octet_string =
         (\<lambda>p v n. case v of None \<Rightarrow> (False, p) | Some bs \<Rightarrow> (True, P_octet bs)) \<rparr>"

text \<open>A context after \<open>dsa_newctx\<close> and \<open>dsa_sign_init\<close> with key 7, then with SHA256
  bound through \<open>dsa_set_ctx_params\<close>.\<close>

definition demo_ctx0 :: "byte list PROV_DSA_CTX" where
  "demo_ctx0 =
     \<lparr> addr = 1, libctx = 0, propq = None, dsa = Some 7, flag_allow_md = True,
       mdname = [], aid_buf = [0, 0, 0, 0], aid = Aid_NULL, aid_len = 0, md = None,
       mdctx = None, operation = EVP_PKEY_OP_SIGN \<rparr>"

definition demo_ctx1 :: "byte list PROV_DSA_CTX" where
  "demo_ctx1 =
     demo_ctx0\<lparr> aid_buf := [0, 0, 2, 160], aid := Aid_at 1 2, aid_len := 2,
                md := Some 2, mdname := ''SHA256'' \<rparr>"

definition demo_new :: "byte list PROV_DSA_CTX" where
  "demo_new =
     \<lparr> addr = 1, libctx = 0, propq = None, dsa = None, flag_allow_md = True,
       mdname = [], aid_buf = [0, 0, 0, 0], aid = Aid_NULL, aid_len = 0, md = None,
       mdctx = None, operation = EVP_PKEY_OP_UNDEFINED \<rparr>"

text \<open>The context after \<open>dsa_digest_sign_init\<close> with SHA256 and one update with the
  bytes 5, 6, 7; then after \<open>dsa_digest_sign_final\<close>.\<close>

definition demo_ctx2 :: "byte list PROV_DSA_CTX" where
  "demo_ctx2 = demo_ctx1\<lparr> flag_allow_md := False, mdctx := Some [5, 6, 7] \<rparr>"

definition demo_ctx3 :: "byte list PROV_DSA_CTX" where
  "demo_ctx3 = demo_ctx2\<lparr> flag_allow_md := True \<rparr>"

text \<open>The same environment with an encoder that fails.\<close>

definition demo_env_noaid :: "(byte list, demo_param) env" where
  "demo_env_noaid =
     demo_env\<lparr> ossl_DER_w_algorithmIdentifier_DSA_with_MD := (\<lambda>buf k nid. (False, buf, 0)) \<rparr>"

text \<open>\<open>demo_ctx0\<close> after SHA256 is bound there (nothing was ever encoded), and
  \<open>demo_ctx1\<close> after SHA512 is bound there (the pointer of the earlier encoding
  stays).\<close>

definition demo_ctx0_noaid :: "byte list PROV_DSA_CTX" where
  "demo_ctx0_noaid = demo_ctx0\<lparr> md := Some 2, mdname := ''SHA256'' \<rparr>"

definition demo_ctx1_noaid :: "byte list PROV_DSA_CTX" where
  "demo_ctx1_noaid = demo_ctx1\<lparr> aid_len := 0, md := Some 3, mdname := ''SHA512'' \<rparr>"

text \<open>The same environment with an allocator that returns address 2; the duplicate of
  \<open>demo_ctx1\<close> made there; and \<open>demo_ctx1\<close> after SHA512 is bound in place of SHA256.\<close>

definition demo_env2 :: "(byte list, demo_param) env" where
  "demo_env2 = demo_env\<lparr> OPENSSL_zalloc := Some 2 \<rparr>"

definition demo_dup :: "byte list PROV_DSA_CTX" where
  "demo_dup = demo_ctx1\<lparr> addr := 2 \<rparr>"

definition demo_ctx1_sha512 :: "byte list PROV_DSA_CTX" where
  "demo_ctx1_sha512 =
     demo_ctx1\<lparr> aid_buf := [0, 0, 2, 162], md := Some 3, mdname := ''SHA512'' \<rparr>"

section \<open>Properties\<close>

subsection \<open>What each function leaves unchanged\<close>

lemma signverify_init_frame:
  "dsa_signverify_init env (Some c) vdsa op = (r, c', evs) \<Longrightarrow>
   \<exists>c''. c' = Some c'' \<and> flag_allow_md c'' = flag_allow_md c \<and> md c'' = md c
      \<and> mdctx c'' = mdctx c"
  by (auto simp: dsa_signverify_init_def Let_def split: if_splits option.splits)

lemma setup_md_frame:
  "dsa_setup_md env c name props = (r, c', evs) \<Longrightarrow>
   flag_allow_md c' = flag_allow_md c \<and>
   ((c' = c \<and> (r = 0 \<or> name = None))
    \<or> (r = 1 \<and> mdctx c' = None \<and> md c' \<noteq> None \<and> name \<noteq> None))"
  by (auto simp: dsa_setup_md_def Let_def split: if_splits option.splits prod.splits)

lemma setup_md_binds:
  assumes "EVP_MD_fetch env (libctx c) name
             (case props of None \<Rightarrow> propq c | Some s \<Rightarrow> Some s) = Some m"
    and "ossl_digest_get_approved_nid_with_sha1 env (Some m)
           (operation c \<noteq> EVP_PKEY_OP_SIGN) \<noteq> NID_undef"
  shows "\<exists>c' evs. dsa_setup_md env c (Some name) props = (1, c', evs) \<and> md c' = Some m
            \<and> mdctx c' = None \<and> flag_allow_md c' = flag_allow_md c
            \<and> (\<forall>r d. ERR_raise r d \<notin> set evs)"
  using assms by (auto simp: dsa_setup_md_def Let_def split: prod.splits)

lemma setup_md_refuses:
  assumes "EVP_MD_fetch env (libctx c) name
             (case props of None \<Rightarrow> propq c | Some s \<Rightarrow> Some s) = Some m"
    and "ossl_digest_get_approved_nid_with_sha1 env (Some m)
           (operation c \<noteq> EVP_PKEY_OP_SIGN) = NID_undef"
  shows "\<exists>evs. dsa_setup_md env c (Some name) props = (0, c, evs)
            \<and> ERR_raise PROV_R_DIGEST_NOT_ALLOWED (''digest='' @ name) \<in> set evs"
  using assms by (auto simp: dsa_setup_md_def Let_def split: prod.splits)


lemma set_ctx_params_unlocked:
  "OSSL_PARAM_locate ps OSSL_SIGNATURE_PARAM_DIGEST = Some p \<Longrightarrow> flag_allow_md c \<Longrightarrow>
   OSSL_PARAM_get_utf8_string env p (OSSL_MAX_NAME_SIZE env) = Some name \<Longrightarrow>
   (case OSSL_PARAM_locate ps OSSL_SIGNATURE_PARAM_PROPERTIES of
      None \<Rightarrow> Some []
    | Some propsp \<Rightarrow>
        OSSL_PARAM_get_utf8_string env propsp (OSSL_MAX_PROPQUERY_SIZE env)) = Some props \<Longrightarrow>
   dsa_set_ctx_params env (Some c) (Some ps) =
     (case dsa_setup_md env c (Some name) (Some props) of (r, c', evs) \<Rightarrow> (r, Some c', evs))"
  by (auto simp: dsa_set_ctx_params_def dsa_setup_md_def Let_def
           split: prod.splits option.splits)


lemma update_frame:
  "\<exists>r c1. dsa_digest_signverify_update env (Some c) d = (r, Some c1)
      \<and> flag_allow_md c1 = flag_allow_md c \<and> md c1 = md c
      \<and> (mdctx c1 = None \<longleftrightarrow> mdctx c = None)"
  by (cases "mdctx c") (auto simp: dsa_digest_signverify_update_def split: prod.splits)

lemma update_result:
  "dsa_digest_signverify_update env (Some c) d = (r, Some c') \<Longrightarrow>
   flag_allow_md c' = flag_allow_md c \<and> md c' = md c \<and> (mdctx c' = None \<longleftrightarrow> mdctx c = None)"
  by (auto simp: dsa_digest_signverify_update_def split: option.splits prod.splits)

lemma stream_updates_Some:
  "\<exists>c'. stream_updates env (Some c) ds = Some c' \<and> flag_allow_md c' = flag_allow_md c
      \<and> md c' = md c \<and> (mdctx c' = None \<longleftrightarrow> mdctx c = None)"
proof (induction ds arbitrary: c)
  case Nil
  show ?case by simp
next
  case (Cons d ds)
  from update_frame [of env c d]
  obtain r c1 where u: "dsa_digest_signverify_update env (Some c) d = (r, Some c1)"
    and f: "flag_allow_md c1 = flag_allow_md c" "md c1 = md c"
      "mdctx c1 = None \<longleftrightarrow> mdctx c = None"
    by auto
  from Cons.IH [of c1] u f show ?case by auto
qed

lemma sign_final_result:
  "dsa_digest_sign_final env (Some c) sig sigsize = (res, Some c') \<Longrightarrow>
   md c' = md c \<and> (mdctx c' = None \<longleftrightarrow> mdctx c = None)"
  by (auto simp: dsa_digest_sign_final_def Let_def split: if_splits option.splits prod.splits)

lemma verify_final_result:
  "dsa_digest_verify_final env (Some c) sg = (r, Some c') \<Longrightarrow>
   md c' = md c \<and> (mdctx c' = None \<longleftrightarrow> mdctx c = None)"
  by (auto simp: dsa_digest_verify_final_def Let_def split: if_splits option.splits prod.splits)



lemma set_ctx_md_params_result:
  "dsa_set_ctx_md_params env c ps = (r, c') \<Longrightarrow>
   md c' = md c \<and> (mdctx c' = None \<longleftrightarrow> mdctx c = None)"
  by (auto simp: dsa_set_ctx_md_params_def split: option.splits prod.splits)

lemma set_ctx_params_result:
  assumes "dsa_set_ctx_params env (Some c) ps = (r, Some c', evs)"
  shows "c' = c \<or> (mdctx c' = None \<and> md c' \<noteq> None)"
proof -
  have "c' = c \<or> (\<exists>n p r' e'. dsa_setup_md env c n p = (r', c', e'))"
    using assms
    by (auto simp: dsa_set_ctx_params_def split: option.splits if_splits prod.splits)
  with setup_md_frame show ?thesis by blast
qed

lemma newctx_result:
  "dsa_newctx env provctx pq = (Some c, evs) \<Longrightarrow>
   mdctx c = None \<and> md c = None \<and> flag_allow_md c"
  by (auto simp: dsa_newctx_def zeroed_def Let_def split: if_splits option.splits)

lemma digest_signverify_init_unfold:
  assumes run: "ossl_prov_is_running env"
    and i: "dsa_signverify_init env (Some (c\<lparr> flag_allow_md := False \<rparr>)) vdsa op
              = (r1, Some c2, e1)"
    and s: "dsa_setup_md env c2 name None = (r2, c3, e2)"
  shows "dsa_digest_signverify_init env c name vdsa op =
      (if r1 = 0 then (0, c2, e1)
       else if r2 = 0 then (0, c3, e1 @ e2)
       else case EVP_MD_CTX_new env of
              None \<Rightarrow> (0, c3\<lparr> mdctx := None, md := None \<rparr>,
                        e1 @ e2 @ [E_EVP_MD_CTX_free None, E_EVP_MD_free (md c3)])
            | Some m0 \<Rightarrow>
                (if fst (EVP_DigestInit_ex env m0 (md c3))
                 then (1, c3\<lparr> mdctx := Some (snd (EVP_DigestInit_ex env m0 (md c3))) \<rparr>,
                       e1 @ e2 @ [E_EVP_MD_CTX_new m0])
                 else (0, c3\<lparr> mdctx := None, md := None \<rparr>,
                       e1 @ e2 @ [E_EVP_MD_CTX_new m0,
                         E_EVP_MD_CTX_free (Some (snd (EVP_DigestInit_ex env m0 (md c3)))),
                         E_EVP_MD_free (md c3)])))"
  unfolding dsa_digest_signverify_init_def Let_def i using run s
  by (simp add: case_prod_beta split: option.split)

lemma digest_signverify_init_result:
  assumes sane: "digest_init_needs_md env"
    and init: "dsa_digest_signverify_init env c name vdsa op = (r, c', evs)"
  shows "(r = 1 \<and> mdctx c' \<noteq> None \<and> md c' \<noteq> None \<and> \<not> flag_allow_md c')
       \<or> (r = 0 \<and> ((md c' = md c \<and> mdctx c' = mdctx c) \<or> mdctx c' = None))"
proof (cases "ossl_prov_is_running env")
  case False
  with init show ?thesis by (simp add: dsa_digest_signverify_init_def)
next
  case True
  let ?c1 = "c\<lparr> flag_allow_md := False \<rparr>"
  obtain r1 c2o e1 where i: "dsa_signverify_init env (Some ?c1) vdsa op = (r1, c2o, e1)"
    by (cases "dsa_signverify_init env (Some ?c1) vdsa op")
  from signverify_init_frame [OF i] obtain c2 where
    c2: "c2o = Some c2" "\<not> flag_allow_md c2" "md c2 = md c" "mdctx c2 = mdctx c"
    by auto
  obtain r2 c3 e2 where s: "dsa_setup_md env c2 name None = (r2, c3, e2)"
    by (cases "dsa_setup_md env c2 name None")
  from setup_md_frame [OF s] c2 have c3: "\<not> flag_allow_md c3"
    "(md c3 = md c \<and> mdctx c3 = mdctx c) \<or> (mdctx c3 = None \<and> md c3 \<noteq> None)"
    by auto
  have nomd: "\<not> fst (EVP_DigestInit_ex env m0 None)" for m0
    using sane by (simp add: digest_init_needs_md_def)
  note eq = digest_signverify_init_unfold [OF True i [unfolded c2(1)] s, unfolded init]
  show ?thesis
  proof (cases "r1 = 0")
    case True
    with eq c2 show ?thesis by simp
  next
    case r1: False
    show ?thesis
    proof (cases "r2 = 0")
      case True
      with eq r1 c3 show ?thesis by auto
    next
      case r2: False
      show ?thesis
      proof (cases "EVP_MD_CTX_new env")
        case None
        with eq r1 r2 show ?thesis by simp
      next
        case (Some m0)
        show ?thesis
        proof (cases "fst (EVP_DigestInit_ex env m0 (md c3))")
          case False
          with eq r1 r2 Some show ?thesis by simp
        next
          case True
          with nomd [of m0] have "md c3 \<noteq> None" by (cases "md c3") auto
          with True eq r1 r2 Some c3 show ?thesis by simp
        qed
      qed
    qed
  qed
qed


subsection \<open>Nothing but the parameter getter reads the algorithm identifier\<close>

lemma forget_aid_eqD:
  assumes "forget_aid c' = forget_aid c"
  shows "c' = c\<lparr> aid_buf := aid_buf c', aid := aid c', aid_len := aid_len c' \<rparr>"
  using assms by (cases c, cases c') (simp add: forget_aid_def)

lemma frame_sign:
  "forget_aid c' = forget_aid c \<Longrightarrow>
   dsa_sign env c' sig sigsize tbs = dsa_sign env c sig sigsize tbs"
  by (drule forget_aid_eqD, erule ssubst) (simp add: dsa_sign_def dsa_get_md_size_def Let_def)

lemma frame_verify:
  "forget_aid c' = forget_aid c \<Longrightarrow> dsa_verify env c' sg tbs = dsa_verify env c sg tbs"
  by (drule forget_aid_eqD, erule ssubst) (simp add: dsa_verify_def dsa_get_md_size_def Let_def)

lemma frame_update:
  "forget_aid c' = forget_aid c \<Longrightarrow>
   apsnd (map_option forget_aid) (dsa_digest_signverify_update env (Some c') d) =
   apsnd (map_option forget_aid) (dsa_digest_signverify_update env (Some c) d)"
  by (drule forget_aid_eqD, erule ssubst)
     (simp add: dsa_digest_signverify_update_def forget_aid_def
           split: option.splits prod.splits)

lemma frame_sign_final:
  "forget_aid c' = forget_aid c \<Longrightarrow>
   apsnd (map_option forget_aid) (dsa_digest_sign_final env (Some c') sig sigsize) =
   apsnd (map_option forget_aid) (dsa_digest_sign_final env (Some c) sig sigsize)"
  by (drule forget_aid_eqD, erule ssubst)
     (simp add: dsa_digest_sign_final_def dsa_sign_def dsa_get_md_size_def forget_aid_def
           Let_def split: option.splits prod.splits)

lemma frame_verify_final:
  "forget_aid c' = forget_aid c \<Longrightarrow>
   apsnd (map_option forget_aid) (dsa_digest_verify_final env (Some c') sg) =
   apsnd (map_option forget_aid) (dsa_digest_verify_final env (Some c) sg)"
  by (drule forget_aid_eqD, erule ssubst)
     (simp add: dsa_digest_verify_final_def dsa_verify_def dsa_get_md_size_def forget_aid_def
           Let_def split: option.splits prod.splits)

lemma approved_nid_encoder:
  "ossl_digest_get_approved_nid_with_sha1
     (env\<lparr> ossl_DER_w_algorithmIdentifier_DSA_with_MD := enc \<rparr>) m a =
   ossl_digest_get_approved_nid_with_sha1 env m a"
  by (simp add: ossl_digest_get_approved_nid_with_sha1_def)

lemma get_ctx_params_aid:
  "dsa_get_ctx_params env st (Some c) (Some [(OSSL_SIGNATURE_PARAM_ALGORITHM_ID, p)]) =
     (case OSSL_PARAM_set_octet_string env p (read_aid st (aid c) (aid_len c)) (aid_len c) of
        (ok, p') \<Rightarrow> (if ok then 1 else 0, Some [(OSSL_SIGNATURE_PARAM_ALGORITHM_ID, p')]))"
  by (simp add: dsa_get_ctx_params_def OSSL_SIGNATURE_PARAM_ALGORITHM_ID_def
        OSSL_SIGNATURE_PARAM_DIGEST_def split: prod.splits)

lemma get_ctx_params_aid_refused:
  "OSSL_PARAM_locate ps OSSL_SIGNATURE_PARAM_ALGORITHM_ID = Some p \<Longrightarrow>
   \<not> fst (OSSL_PARAM_set_octet_string env p (read_aid st (aid c) (aid_len c)) (aid_len c)) \<Longrightarrow>
   fst (dsa_get_ctx_params env st (Some c) (Some ps)) = 0"
  by (auto simp: dsa_get_ctx_params_def split: prod.splits)

subsection \<open>Resources of a duplication\<close>

lemma mdctx_live_append: "mdctx_live (xs @ ys) = mdctx_live xs + mdctx_live ys"
  by (induction xs rule: mdctx_live.induct) simp_all

lemma strings_live_append: "strings_live (xs @ ys) = strings_live xs + strings_live ys"
  by (induction xs rule: strings_live.induct) simp_all

lemma dsa_refs_append: "dsa_refs (xs @ ys) k = dsa_refs xs k + dsa_refs ys k"
  by (simp add: dsa_refs_def)

lemma md_refs_append: "md_refs (xs @ ys) k = md_refs xs k + md_refs ys k"
  by (simp add: md_refs_def)

lemma blocks_live_append: "blocks_live (xs @ ys) k = blocks_live xs k + blocks_live ys k"
  by (simp add: blocks_live_def)

lemma dsa_refs_Nil: "dsa_refs [] k = 0"
  by (simp add: dsa_refs_def)

lemma dsa_refs_Cons:
  "dsa_refs (e # evs) k =
     (if e = E_DSA_up_ref k then 1 else 0) - (if e = E_DSA_free (Some k) then 1 else 0)
     + dsa_refs evs k"
  by (simp add: dsa_refs_def)

lemma md_refs_Nil: "md_refs [] m = 0"
  by (simp add: md_refs_def)

lemma md_refs_Cons:
  "md_refs (e # evs) m =
     (if e = E_EVP_MD_up_ref m then 1 else 0) + (if e = E_EVP_MD_fetch (Some m) then 1 else 0)
     - (if e = E_EVP_MD_free (Some m) then 1 else 0) + md_refs evs m"
  by (simp add: md_refs_def)

lemma blocks_live_Nil: "blocks_live [] a = 0"
  by (simp add: blocks_live_def)

lemma blocks_live_Cons:
  "blocks_live (e # evs) a =
     (if e = E_OPENSSL_zalloc a then 1 else 0) - (if e = E_OPENSSL_free a then 1 else 0)
     + blocks_live evs a"
  by (simp add: blocks_live_def)

lemmas live_simps =
  mdctx_live_append strings_live_append dsa_refs_append md_refs_append blocks_live_append
  dsa_refs_Nil dsa_refs_Cons md_refs_Nil md_refs_Cons blocks_live_Nil blocks_live_Cons

lemma freectx_releases: "dup_holds d evs \<Longrightarrow> balanced (evs @ dsa_freectx d)"
  by (cases "propq d"; cases "mdctx d")
     (auto simp: dup_holds_def balanced_def live_simps dsa_freectx_def)

lemma dup_holds_start:
  "dup_holds (src\<lparr> addr := b, dsa := None, md := None, mdctx := None, propq := None \<rparr>)
     [E_OPENSSL_zalloc b]"
  by (auto simp: dup_holds_def live_simps)

lemma dup_holds_dsa:
  "dup_holds d evs \<Longrightarrow> dsa d = None \<Longrightarrow>
   dup_holds (d\<lparr> dsa := ko \<rparr>)
     (evs @ (case ko of None \<Rightarrow> [] | Some k \<Rightarrow> [E_DSA_up_ref k]))"
  by (cases ko) (auto simp: dup_holds_def live_simps)

lemma dup_holds_md:
  "dup_holds d evs \<Longrightarrow> md d = None \<Longrightarrow>
   dup_holds (d\<lparr> md := mo \<rparr>)
     (evs @ (case mo of None \<Rightarrow> [] | Some m \<Rightarrow> [E_EVP_MD_up_ref m]))"
  by (cases mo) (auto simp: dup_holds_def live_simps)

lemma dup_holds_mdctx:
  "dup_holds d evs \<Longrightarrow> mdctx d = None \<Longrightarrow>
   dup_holds (d\<lparr> mdctx := Some nm' \<rparr>) (evs @ [E_EVP_MD_CTX_new nm])"
  by (auto simp: dup_holds_def live_simps)

lemma dup_holds_propq:
  "dup_holds d evs \<Longrightarrow> propq d = None \<Longrightarrow>
   dup_holds (d\<lparr> propq := Some s \<rparr>) (evs @ [E_OPENSSL_strdup s])"
  by (auto simp: dup_holds_def live_simps)

text \<open>
  Every path through \<open>dsa_dupctx\<close> past the allocation: either the duplicate built so far
  is freed, giving back exactly what was acquired for it, or the finished duplicate is
  returned.
\<close>

lemma dupctx_outcome:
  assumes run: "ossl_prov_is_running env" and za: "OPENSSL_zalloc env = Some b"
  shows "\<exists>d evs. dup_holds d evs
           \<and> (dsa_dupctx env src = (None, evs @ dsa_freectx d)
               \<or> (dsa_dupctx env src = (Some d, evs) \<and> dup_copies env src d))"
proof -
  let ?d0 = "src\<lparr> addr := b, dsa := None, md := None, mdctx := None, propq := None \<rparr>"
  let ?e0 = "[E_OPENSSL_zalloc b] :: 'a event list"
  let ?kf = "case dsa src of None \<Rightarrow> False | Some k \<Rightarrow> \<not> DSA_up_ref env k"
  let ?mf = "case md src of None \<Rightarrow> False | Some m \<Rightarrow> \<not> EVP_MD_up_ref env m"
  have h0: "dup_holds ?d0 ?e0" by (rule dup_holds_start)
  show ?thesis
  proof (cases ?kf)
    case True
    then have "dsa_dupctx env src = (None, ?e0 @ dsa_freectx ?d0)"
      using run za by (simp add: dsa_dupctx_def Let_def)
    with h0 show ?thesis by blast
  next
    case kf: False
    let ?d1 = "?d0\<lparr> dsa := dsa src \<rparr>"
    let ?e1 = "?e0 @ (case dsa src of None \<Rightarrow> [] | Some k \<Rightarrow> [E_DSA_up_ref k])"
    have h1: "dup_holds ?d1 ?e1" using dup_holds_dsa [OF h0, of "dsa src"] by simp
    show ?thesis
    proof (cases ?mf)
      case True
      then have "dsa_dupctx env src = (None, ?e1 @ dsa_freectx ?d1)"
        using run za kf by (simp add: dsa_dupctx_def Let_def)
      with h1 show ?thesis by blast
    next
      case mf: False
      let ?d2 = "?d1\<lparr> md := md src \<rparr>"
      let ?e2 = "?e1 @ (case md src of None \<Rightarrow> [] | Some m \<Rightarrow> [E_EVP_MD_up_ref m])"
      have h2: "dup_holds ?d2 ?e2" using dup_holds_md [OF h1, of "md src"] by simp
      let ?st = "case mdctx src of
                   None \<Rightarrow> (True, ?d2, ?e2)
                 | Some sm \<Rightarrow>
                     (case EVP_MD_CTX_new env of
                        None \<Rightarrow> (False, ?d2, ?e2)
                      | Some nm \<Rightarrow>
                          (case EVP_MD_CTX_copy_ex env nm sm of
                             (ok, nm') \<Rightarrow>
                               (ok, ?d2\<lparr> mdctx := Some nm' \<rparr>,
                                ?e2 @ [E_EVP_MD_CTX_new nm])))"
      define st where "st = ?st"
      obtain ok3 d3 e3 where st3: "st = (ok3, d3, e3)" by (cases st)
      have st: "?st = (ok3, d3, e3)" using st3 by (simp only: st_def)
      have "dsa_dupctx env src =
          (case st of (ok3, d3, e3) \<Rightarrow>
           if \<not> ok3 then (None, e3 @ dsa_freectx d3)
           else case propq src of
                  None \<Rightarrow> (Some d3, e3)
                | Some s \<Rightarrow>
                    (case OPENSSL_strdup env s of
                       None \<Rightarrow> (None, e3 @ dsa_freectx d3)
                     | Some s' \<Rightarrow>
                         (Some (d3\<lparr> propq := Some s' \<rparr>), e3 @ [E_OPENSSL_strdup s'])))"
        unfolding st_def using run za kf mf by (simp add: dsa_dupctx_def Let_def)
      then have unfold: "dsa_dupctx env src =
          (if \<not> ok3 then (None, e3 @ dsa_freectx d3)
           else case propq src of
                  None \<Rightarrow> (Some d3, e3)
                | Some s \<Rightarrow>
                    (case OPENSSL_strdup env s of
                       None \<Rightarrow> (None, e3 @ dsa_freectx d3)
                     | Some s' \<Rightarrow>
                         (Some (d3\<lparr> propq := Some s' \<rparr>), e3 @ [E_OPENSSL_strdup s'])))"
        by (simp only: st3 prod.case)
      have h3: "dup_holds d3 e3 \<and> propq d3 = None \<and> addr d3 = b
                \<and> (ok3 \<longrightarrow> (\<forall>q. (q = None \<longleftrightarrow> propq src = None)
                       \<and> q = (case propq src of None \<Rightarrow> None
                              | Some s \<Rightarrow> OPENSSL_strdup env s)
                       \<longrightarrow> dup_copies env src (d3\<lparr> propq := q \<rparr>)))"
      proof (cases "mdctx src")
        case None
        with st h2 za show ?thesis by (auto simp: dup_copies_def)
      next
        case (Some sm)
        show ?thesis
        proof (cases "EVP_MD_CTX_new env")
          case None
          with Some st h2 show ?thesis by auto
        next
          case nm: (Some nm)
          obtain ok nm' where cp: "EVP_MD_CTX_copy_ex env nm sm = (ok, nm')"
            by (cases "EVP_MD_CTX_copy_ex env nm sm")
          from dup_holds_mdctx [OF h2, of nm' nm]
          have "dup_holds (?d2\<lparr> mdctx := Some nm' \<rparr>) (?e2 @ [E_EVP_MD_CTX_new nm])" by simp
          with Some nm cp st za show ?thesis by (auto simp: dup_copies_def)
        qed
      qed
      show ?thesis
      proof (cases ok3)
        case False
        with unfold h3 show ?thesis by auto
      next
        case ok: True
        show ?thesis
        proof (cases "propq src")
          case None
          with ok unfold h3 have "dsa_dupctx env src = (Some d3, e3)"
            "dup_copies env src (d3\<lparr> propq := None \<rparr>)"
            by auto
          moreover from h3 have "d3\<lparr> propq := None \<rparr> = d3" by (cases d3) auto
          ultimately show ?thesis using h3 by auto
        next
          case (Some s)
          show ?thesis
          proof (cases "OPENSSL_strdup env s")
            case None
            with Some ok unfold h3 show ?thesis by auto
          next
            case sd: (Some s')
            from h3 dup_holds_propq [of d3 e3 s']
            have "dup_holds (d3\<lparr> propq := Some s' \<rparr>) (e3 @ [E_OPENSSL_strdup s'])" by simp
            moreover from Some sd ok unfold
            have "dsa_dupctx env src =
                    (Some (d3\<lparr> propq := Some s' \<rparr>), e3 @ [E_OPENSSL_strdup s'])"
              by simp
            moreover from h3 ok Some sd have "dup_copies env src (d3\<lparr> propq := Some s' \<rparr>)"
              by auto
            ultimately show ?thesis by blast
          qed
        qed
      qed
    qed
  qed
qed

text \<open>
  \<open>dsa_dupctx\<close> is all or nothing. When it returns NULL, every reference, stream, string
  and block the call acquired has been released again. When it returns a duplicate, the
  duplicate is complete (\<open>dup_copies\<close>) and the call acquired exactly what the duplicate
  points to.
\<close>

lemma dupctx_all_or_nothing:
  "(dsa_dupctx env src = (None, evs) \<longrightarrow> balanced evs)
   \<and> (dsa_dupctx env src = (Some dst, evs) \<longrightarrow> dup_holds dst evs \<and> dup_copies env src dst)"
proof (cases "ossl_prov_is_running env \<and> OPENSSL_zalloc env \<noteq> None")
  case False
  then have "dsa_dupctx env src = (None, [])"
    by (auto simp: dsa_dupctx_def)
  then show ?thesis by (auto simp: balanced_def live_simps)
next
  case True
  then obtain b where "ossl_prov_is_running env" "OPENSSL_zalloc env = Some b" by auto
  from dupctx_outcome [OF this, of src] freectx_releases show ?thesis by auto
qed

lemma dupctx_result:
  "dsa_dupctx env c = (Some c', evs) \<Longrightarrow>
   md c' = md c \<and> (mdctx c' \<noteq> None \<longrightarrow> mdctx c \<noteq> None)"
  using dupctx_all_or_nothing [of env c evs c']
  by (auto simp: dup_copies_def split: option.splits)

subsection \<open>The concrete environment, evaluated\<close>

lemma demo_eval_newctx: "dsa_newctx demo_env 0 None = (Some demo_new, [E_OPENSSL_zalloc 1])"
  by (simp add: dsa_newctx_def demo_env_def zeroed_def demo_new_def numeral_eq_Suc)

lemma demo_eval_sign_init:
  "dsa_signverify_init demo_env (Some demo_new) (Some 7) EVP_PKEY_OP_SIGN =
     (1, Some demo_ctx0, [E_DSA_up_ref 7, E_DSA_free None])"
  by (simp add: dsa_signverify_init_def demo_env_def demo_new_def demo_ctx0_def)

lemma demo_eval_set_digest:
  "dsa_set_ctx_params demo_env (Some demo_ctx0)
     (Some [(OSSL_SIGNATURE_PARAM_DIGEST, P_utf8 ''SHA256'')]) =
   (1, Some demo_ctx1, [E_EVP_MD_fetch (Some 2), E_EVP_MD_CTX_free None, E_EVP_MD_free None])"
  by (simp add: dsa_set_ctx_params_def dsa_setup_md_def
        ossl_digest_get_approved_nid_with_sha1_def demo_env_def demo_ctx0_def demo_ctx1_def
        OSSL_SIGNATURE_PARAM_DIGEST_def OSSL_SIGNATURE_PARAM_PROPERTIES_def NID_sha1_def
        NID_undef_def Let_def)

lemma demo_eval_digest_sign_init:
  "dsa_digest_signverify_init demo_env demo_ctx0 (Some ''SHA256'') (Some 7) EVP_PKEY_OP_SIGN =
     (1, demo_ctx1\<lparr> flag_allow_md := False, mdctx := Some [] \<rparr>,
      [E_DSA_up_ref 7, E_DSA_free (Some 7), E_EVP_MD_fetch (Some 2), E_EVP_MD_CTX_free None,
       E_EVP_MD_free None, E_EVP_MD_CTX_new []])"
  by (simp add: dsa_digest_signverify_init_def dsa_signverify_init_def dsa_setup_md_def
        ossl_digest_get_approved_nid_with_sha1_def demo_env_def demo_ctx0_def demo_ctx1_def
        NID_sha1_def NID_undef_def Let_def)

lemma demo_eval_update:
  "dsa_digest_signverify_update demo_env
     (Some (demo_ctx1\<lparr> flag_allow_md := False, mdctx := Some [] \<rparr>)) [5, 6, 7] =
   (1, Some demo_ctx2)"
  by (simp add: dsa_digest_signverify_update_def demo_env_def demo_ctx2_def)

lemma demo_eval_sign_final:
  "dsa_digest_sign_final demo_env (Some demo_ctx2) True 4 =
     (Some (2, Some [6, 5]), Some demo_ctx3)"
  by (simp add: dsa_digest_sign_final_def dsa_sign_def dsa_get_md_size_def demo_env_def
        demo_ctx3_def demo_ctx2_def demo_ctx1_def demo_ctx0_def)

lemma demo_env_needs_md: "digest_init_needs_md demo_env"
  by (simp add: digest_init_needs_md_def demo_env_def)

lemma demo_ctx3_reach:
  "reach (digest_init_needs_md :: (byte list, demo_param) env \<Rightarrow> bool) demo_ctx3"
proof -
  note e = demo_env_needs_md
  have "reach (digest_init_needs_md :: (byte list, demo_param) env \<Rightarrow> bool) demo_new"
    by (rule reach_newctx [where P = digest_init_needs_md, OF e demo_eval_newctx])
  then have "reach (digest_init_needs_md :: (byte list, demo_param) env \<Rightarrow> bool) demo_ctx0"
    by (rule reach_signverify_init [where P = digest_init_needs_md, OF _ e demo_eval_sign_init])
  then have "reach (digest_init_needs_md :: (byte list, demo_param) env \<Rightarrow> bool)
               (demo_ctx1\<lparr> flag_allow_md := False, mdctx := Some [] \<rparr>)"
    by (rule reach_digest_signverify_init
          [where P = digest_init_needs_md, OF _ e demo_eval_digest_sign_init])
  then have "reach (digest_init_needs_md :: (byte list, demo_param) env \<Rightarrow> bool) demo_ctx2"
    by (rule reach_digest_signverify_update
          [where P = digest_init_needs_md, OF _ e demo_eval_update])
  then show ?thesis
    by (rule reach_digest_sign_final [where P = digest_init_needs_md, OF _ e demo_eval_sign_final])
qed

subsection \<open>The claims: one-shot sign and verify\<close>

text \<open>
  Claim C1 (round trip). For a key whose primitives agree (\<open>dsa_key_valid\<close>) and a running
  provider: whatever signature \<open>dsa_sign\<close> returns for an input is accepted by
  \<open>dsa_verify\<close> for the same input, on the same context and on any context that holds
  the same key and digest (a verify-initialised one, say). And with a bound digest, an
  input of the digest's output size, enough room for the signature and a primitive that
  signs, \<open>dsa_sign\<close> does return a signature.
\<close>

theorem sign_verify_roundtrip:
  assumes run: "ossl_prov_is_running env"
    and key: "dsa_key_valid env (dsa ctx)"
    and same: "dsa ctx' = dsa ctx" "md ctx' = md ctx"
  shows "(\<forall>siglen sg. dsa_sign env ctx True sigsize tbs = Some (siglen, Some sg)
            \<longrightarrow> dsa_verify env ctx sg tbs = 1 \<and> dsa_verify env ctx' sg tbs = 1)
      \<and> (\<forall>m. md ctx = Some m
              \<and> of_nat (length tbs) = (of_int (EVP_MD_size env m) :: size_t)
              \<and> of_int (DSA_size env (dsa ctx)) \<le> sigsize
              \<and> 0 < fst (ossl_dsa_sign_int env tbs (dsa ctx))
            \<longrightarrow> (\<exists>sg. dsa_sign env ctx True sigsize tbs = Some (of_nat (length sg), Some sg)
                      \<and> dsa_verify env ctx' sg tbs = 1))"
proof -
  have acc: "dsa_verify env c sg tbs = 1"
    if "dsa_sign env ctx True sigsize tbs = Some (siglen, Some sg)"
      and "dsa c = dsa ctx" and "md c = md ctx" for c siglen sg
  proof -
    from that(1) run
    have sz: "dsa_get_md_size env ctx = 0 \<or> of_nat (length tbs) = dsa_get_md_size env ctx"
      and ret: "0 < fst (ossl_dsa_sign_int env tbs (dsa ctx))"
      and sg: "sg = snd (ossl_dsa_sign_int env tbs (dsa ctx))"
      by (auto simp: dsa_sign_def Let_def split: if_splits prod.splits)
    from key ret sg have "DSA_verify env tbs sg (dsa ctx) = 1"
      by (simp add: dsa_key_valid_def)
    moreover have "dsa_get_md_size env c = dsa_get_md_size env ctx"
      using that(3) by (simp add: dsa_get_md_size_def)
    ultimately show ?thesis
      using run sz that(2) by (auto simp: dsa_verify_def Let_def)
  qed
  have first: "\<forall>siglen sg. dsa_sign env ctx True sigsize tbs = Some (siglen, Some sg)
            \<longrightarrow> dsa_verify env ctx sg tbs = 1 \<and> dsa_verify env ctx' sg tbs = 1"
    using acc same by blast
  have second: "\<exists>sg. dsa_sign env ctx True sigsize tbs = Some (of_nat (length sg), Some sg)
                      \<and> dsa_verify env ctx' sg tbs = 1"
    if "md ctx = Some m" "of_nat (length tbs) = (of_int (EVP_MD_size env m) :: size_t)"
       "of_int (DSA_size env (dsa ctx)) \<le> sigsize"
       "0 < fst (ossl_dsa_sign_int env tbs (dsa ctx))" for m
  proof -
    let ?sg = "snd (ossl_dsa_sign_int env tbs (dsa ctx))"
    have s: "dsa_sign env ctx True sigsize tbs = Some (of_nat (length ?sg), Some ?sg)"
      using run that
      by (auto simp: dsa_sign_def dsa_get_md_size_def Let_def split: prod.splits)
    with acc same show ?thesis by blast
  qed
  from first second show ?thesis by blast
qed

theorem sign_verify_roundtrip_witness:
  "dsa_sign demo_env demo_ctx1 True 4 [1, 2] = Some (2, Some [2, 1])
   \<and> dsa_verify demo_env demo_ctx1 [2, 1] [1, 2] = 1
   \<and> dsa_verify demo_env (demo_ctx1\<lparr> operation := EVP_PKEY_OP_VERIFY \<rparr>) [2, 1] [1, 2] = 1"
proof -
  have run: "ossl_prov_is_running demo_env" by (simp add: demo_env_def)
  have key: "dsa_key_valid demo_env (dsa demo_ctx1)"
    by (simp add: dsa_key_valid_def demo_env_def)
  have s: "dsa_sign demo_env demo_ctx1 True 4 [1, 2] = Some (2, Some [2, 1])"
    by (simp add: dsa_sign_def dsa_get_md_size_def demo_env_def demo_ctx1_def demo_ctx0_def)
  from sign_verify_roundtrip
         [OF run key, of "demo_ctx1\<lparr> operation := EVP_PKEY_OP_VERIFY \<rparr>" 4 "[1, 2]"] s
  show ?thesis by simp
qed

text \<open>
  Claim C8 (size query). With a running provider, \<open>dsa_sign\<close> without an output buffer
  returns \<open>DSA_size\<close> of the key, whatever the capacity and input arguments are, and
  changes nothing (it returns no context). That value is the capacity a real call needs:
  with less the call fails, and from it on the call returns the signature, provided the
  input has the bound digest's size (or no digest is bound) and the primitive signs.
\<close>

theorem sign_size_query:
  assumes run: "ossl_prov_is_running env"
  shows "dsa_sign env ctx False cap tbs = Some (of_int (DSA_size env (dsa ctx)), None)
    \<and> (\<forall>sigsize. sigsize < of_int (DSA_size env (dsa ctx))
          \<longrightarrow> dsa_sign env ctx True sigsize tbs = None)
    \<and> (\<forall>sigsize. of_int (DSA_size env (dsa ctx)) \<le> sigsize
          \<and> (dsa_get_md_size env ctx = 0 \<or> of_nat (length tbs) = dsa_get_md_size env ctx)
          \<and> 0 < fst (ossl_dsa_sign_int env tbs (dsa ctx))
        \<longrightarrow> dsa_sign env ctx True sigsize tbs =
              Some (of_nat (length (snd (ossl_dsa_sign_int env tbs (dsa ctx)))),
                    Some (snd (ossl_dsa_sign_int env tbs (dsa ctx)))))"
  using run by (auto simp: dsa_sign_def Let_def split: prod.splits)

theorem sign_size_query_witness:
  "dsa_sign demo_env demo_ctx1 False 0 [1, 2] = Some (4, None)
   \<and> dsa_sign demo_env demo_ctx1 True 3 [1, 2] = None
   \<and> dsa_sign demo_env demo_ctx1 True 4 [1, 2] = Some (2, Some [2, 1])"
proof -
  have run: "ossl_prov_is_running demo_env" by (simp add: demo_env_def)
  have d: "DSA_size demo_env (dsa demo_ctx1) = 4"
    and m: "dsa_get_md_size demo_env demo_ctx1 = 2"
    and p: "ossl_dsa_sign_int demo_env [1, 2] (dsa demo_ctx1) = (1, [2, 1])"
    by (simp_all add: demo_env_def dsa_get_md_size_def demo_ctx1_def demo_ctx0_def)
  from sign_size_query [OF run, of demo_ctx1 0 "[1, 2]"] d m p
  show ?thesis by simp
qed


text \<open>
  Claim C5 (size mismatch), as amended. With a bound digest of non-zero output size and
  an input of any other length, \<open>dsa_verify\<close> returns 0 and a real \<open>dsa_sign\<close> call
  returns 0, whatever the signature, the capacity and the key are. The return value 0 is
  also what \<open>dsa_verify\<close> returns for a signature that does not verify, and neither
  path raises an error: the caller cannot tell the two apart.
\<close>

theorem size_mismatch_fails:
  assumes bound: "md ctx = Some m"
    and nz: "(of_int (EVP_MD_size env m) :: size_t) \<noteq> 0"
    and mismatch: "(of_nat (length tbs) :: size_t) \<noteq> of_int (EVP_MD_size env m)"
  shows "dsa_verify env ctx sg tbs = 0 \<and> dsa_sign env ctx True sigsize tbs = None"
  using assms by (simp add: dsa_verify_def dsa_sign_def dsa_get_md_size_def Let_def)

theorem size_mismatch_fails_witness:
  "dsa_verify demo_env demo_ctx1 [1] [1] = 0 \<and> dsa_sign demo_env demo_ctx1 True 4 [1] = None"
proof -
  have b: "md demo_ctx1 = Some 2" by (simp add: demo_ctx1_def)
  have nz: "(of_int (EVP_MD_size demo_env 2) :: size_t) \<noteq> 0" by (simp add: demo_env_def)
  have mm: "(of_nat (length [1 :: byte]) :: size_t) \<noteq> of_int (EVP_MD_size demo_env 2)"
    by (simp add: demo_env_def)
  from size_mismatch_fails [OF b nz mm] show ?thesis by simp
qed

text \<open>
  The claim as stated fails: in the concrete environment, with a two-byte digest bound,
  the one-byte input 1 with the signature the key's primitive accepts for it (a size
  mismatch) and the two-byte input 1, 2 with a signature the primitive rejects (a
  negative verification) give the same result, 0.
\<close>

theorem size_mismatch_indistinguishable:
  "dsa_get_md_size demo_env demo_ctx1 = 2
   \<and> DSA_verify demo_env [1] [1] (dsa demo_ctx1) = 1
   \<and> dsa_verify demo_env demo_ctx1 [1] [1] = 0
   \<and> DSA_verify demo_env [1, 2] [9, 9] (dsa demo_ctx1) = 0
   \<and> dsa_verify demo_env demo_ctx1 [9, 9] [1, 2] = 0
   \<and> dsa_verify demo_env demo_ctx1 [1] [1] = dsa_verify demo_env demo_ctx1 [9, 9] [1, 2]"
  by (simp add: dsa_verify_def dsa_get_md_size_def demo_env_def demo_ctx1_def demo_ctx0_def)

subsection \<open>The claims: binding a digest\<close>

text \<open>
  Claim C2 (weak-digest asymmetry). Let the name resolve to a digest whose approved NID
  is that of SHA-1. Then \<open>dsa_setup_md\<close> on a context whose operation is Verify returns 1
  with the digest bound and raises no error, and on a context whose operation is Sign it
  returns 0, leaves the context as it was and raises \<open>PROV_R_DIGEST_NOT_ALLOWED\<close>.
  \<open>dsa_set_ctx_params\<close> with that digest name, on a context that allows a digest change,
  returns what \<open>dsa_setup_md\<close> returns.
\<close>

theorem weak_digest_asymmetry:
  assumes fetch: "EVP_MD_fetch env (libctx ctx) name
                    (case props of None \<Rightarrow> propq ctx | Some s \<Rightarrow> Some s) = Some m"
    and sha1: "ossl_digest_get_approved_nid env (Some m) = NID_sha1"
  shows "(operation ctx = EVP_PKEY_OP_VERIFY \<longrightarrow>
            (\<exists>c evs. dsa_setup_md env ctx (Some name) props = (1, c, evs) \<and> md c = Some m
                \<and> (\<forall>r d. ERR_raise r d \<notin> set evs)))
       \<and> (operation ctx = EVP_PKEY_OP_SIGN \<longrightarrow>
            (\<exists>evs. dsa_setup_md env ctx (Some name) props = (0, ctx, evs)
                \<and> ERR_raise PROV_R_DIGEST_NOT_ALLOWED (''digest='' @ name) \<in> set evs))
       \<and> (\<forall>ps p pr. OSSL_PARAM_locate ps OSSL_SIGNATURE_PARAM_DIGEST = Some p
             \<and> flag_allow_md ctx
             \<and> OSSL_PARAM_get_utf8_string env p (OSSL_MAX_NAME_SIZE env) = Some name
             \<and> (case OSSL_PARAM_locate ps OSSL_SIGNATURE_PARAM_PROPERTIES of
                  None \<Rightarrow> Some []
                | Some propsp \<Rightarrow>
                    OSSL_PARAM_get_utf8_string env propsp (OSSL_MAX_PROPQUERY_SIZE env))
               = Some pr
             \<and> props = Some pr
           \<longrightarrow> dsa_set_ctx_params env (Some ctx) (Some ps) =
                 (case dsa_setup_md env ctx (Some name) props of
                    (r, c, evs) \<Rightarrow> (r, Some c, evs)))"
proof -
  have nz: "NID_sha1 \<noteq> NID_undef" by (simp add: NID_sha1_def NID_undef_def)
  have v: "\<exists>c evs. dsa_setup_md env ctx (Some name) props = (1, c, evs) \<and> md c = Some m
                \<and> (\<forall>r d. ERR_raise r d \<notin> set evs)"
    if "operation ctx = EVP_PKEY_OP_VERIFY"
  proof -
    have "ossl_digest_get_approved_nid_with_sha1 env (Some m)
            (operation ctx \<noteq> EVP_PKEY_OP_SIGN) \<noteq> NID_undef"
      using that sha1 nz by (simp add: ossl_digest_get_approved_nid_with_sha1_def)
    from setup_md_binds [OF fetch this] show ?thesis by blast
  qed
  have s: "\<exists>evs. dsa_setup_md env ctx (Some name) props = (0, ctx, evs)
                \<and> ERR_raise PROV_R_DIGEST_NOT_ALLOWED (''digest='' @ name) \<in> set evs"
    if "operation ctx = EVP_PKEY_OP_SIGN"
  proof -
    have "ossl_digest_get_approved_nid_with_sha1 env (Some m)
            (operation ctx \<noteq> EVP_PKEY_OP_SIGN) = NID_undef"
      using that sha1 by (simp add: ossl_digest_get_approved_nid_with_sha1_def)
    from setup_md_refuses [OF fetch this] show ?thesis .
  qed
  have p: "dsa_set_ctx_params env (Some ctx) (Some ps) =
                 (case dsa_setup_md env ctx (Some name) props of
                    (r, c, evs) \<Rightarrow> (r, Some c, evs))"
    if "OSSL_PARAM_locate ps OSSL_SIGNATURE_PARAM_DIGEST = Some p" "flag_allow_md ctx"
       "OSSL_PARAM_get_utf8_string env p (OSSL_MAX_NAME_SIZE env) = Some name"
       "(case OSSL_PARAM_locate ps OSSL_SIGNATURE_PARAM_PROPERTIES of
                  None \<Rightarrow> Some []
                | Some propsp \<Rightarrow>
                    OSSL_PARAM_get_utf8_string env propsp (OSSL_MAX_PROPQUERY_SIZE env))
        = Some pr"
       "props = Some pr" for ps p pr
    using set_ctx_params_unlocked [OF that(1-4)] that(5) by simp
  from v s p show ?thesis by blast
qed

theorem weak_digest_asymmetry_witness:
  "fst (dsa_setup_md demo_env (demo_ctx0\<lparr> operation := EVP_PKEY_OP_VERIFY \<rparr>)
          (Some ''SHA1'') (Some [])) = 1
   \<and> fst (dsa_setup_md demo_env demo_ctx0 (Some ''SHA1'') (Some [])) = 0
   \<and> fst (dsa_set_ctx_params demo_env (Some (demo_ctx0\<lparr> operation := EVP_PKEY_OP_VERIFY \<rparr>))
            (Some [(OSSL_SIGNATURE_PARAM_DIGEST, P_utf8 ''SHA1'')])) = 1
   \<and> fst (dsa_set_ctx_params demo_env (Some demo_ctx0)
            (Some [(OSSL_SIGNATURE_PARAM_DIGEST, P_utf8 ''SHA1'')])) = 0"
proof -
  let ?v = "demo_ctx0\<lparr> operation := EVP_PKEY_OP_VERIFY \<rparr>"
  let ?ps = "[(OSSL_SIGNATURE_PARAM_DIGEST, P_utf8 ''SHA1'')]"
  have f: "EVP_MD_fetch demo_env (libctx c) ''SHA1''
             (case Some [] of None \<Rightarrow> propq c | Some s \<Rightarrow> Some s) = Some 1"
    for c :: "byte list PROV_DSA_CTX"
    by (simp add: demo_env_def)
  have n: "ossl_digest_get_approved_nid demo_env (Some 1) = NID_sha1"
    by (simp add: demo_env_def NID_sha1_def)
  have ov: "operation ?v = EVP_PKEY_OP_VERIFY" and os: "operation demo_ctx0 = EVP_PKEY_OP_SIGN"
    and fl: "flag_allow_md ?v" "flag_allow_md demo_ctx0"
    by (simp_all add: demo_ctx0_def)
  have loc: "OSSL_PARAM_locate ?ps OSSL_SIGNATURE_PARAM_DIGEST = Some (P_utf8 ''SHA1'')"
    by simp
  have g: "OSSL_PARAM_get_utf8_string demo_env (P_utf8 ''SHA1'') (OSSL_MAX_NAME_SIZE demo_env)
             = Some ''SHA1''"
    by (simp add: demo_env_def)
  have pr: "(case OSSL_PARAM_locate ?ps OSSL_SIGNATURE_PARAM_PROPERTIES of
               None \<Rightarrow> Some []
             | Some propsp \<Rightarrow>
                 OSSL_PARAM_get_utf8_string demo_env propsp (OSSL_MAX_PROPQUERY_SIZE demo_env))
            = Some []"
    by (simp add: OSSL_SIGNATURE_PARAM_DIGEST_def OSSL_SIGNATURE_PARAM_PROPERTIES_def)
  from weak_digest_asymmetry [OF f [of ?v] n] ov fl(1) loc g pr
  have "fst (dsa_setup_md demo_env ?v (Some ''SHA1'') (Some [])) = 1
      \<and> fst (dsa_set_ctx_params demo_env (Some ?v) (Some ?ps)) = 1"
    by (auto split: prod.splits)
  moreover
  from weak_digest_asymmetry [OF f [of demo_ctx0] n] os fl(2) loc g pr
  have "fst (dsa_setup_md demo_env demo_ctx0 (Some ''SHA1'') (Some [])) = 0
      \<and> fst (dsa_set_ctx_params demo_env (Some demo_ctx0) (Some ?ps)) = 0"
    by (auto split: prod.splits)
  ultimately show ?thesis by simp
qed

text \<open>
  Claim C6 (identifier encoding failure), as amended. Let the name resolve to an
  approved digest and let the encoder fail on the context's buffer. Then
  \<open>dsa_setup_md\<close> still returns 1 with the digest bound, the stored \<open>aid_len\<close> is 0 and
  the pointer \<open>aid\<close> is as it was. What \<open>dsa_get_ctx_params\<close> then does with a request
  for the identifier depends on that pointer. If nothing was ever encoded on the
  context, the pointer is NULL, and with a setter that refuses a NULL value the call
  returns 0, whatever else is requested with the identifier. If an earlier bind had
  encoded an identifier, the setter is handed the empty octet string. No other
  operation is touched: bound with any other encoder, the call returns the same value
  and events, and a context that differs in the three identifier fields at most; on two
  such contexts \<open>dsa_sign\<close>, \<open>dsa_verify\<close>, the stream update and both finalisers give
  the same results.
\<close>

theorem aid_encoding_failure_not_fatal:
  assumes fetch: "EVP_MD_fetch env (libctx ctx) name
                    (case props of None \<Rightarrow> propq ctx | Some s \<Rightarrow> Some s) = Some m"
    and appr: "ossl_digest_get_approved_nid_with_sha1 env (Some m)
                 (operation ctx \<noteq> EVP_PKEY_OP_SIGN) = nid" "nid \<noteq> NID_undef"
    and fail: "\<not> fst (ossl_DER_w_algorithmIdentifier_DSA_with_MD env (aid_buf ctx) (dsa ctx) nid)"
  shows "\<exists>c evs. dsa_setup_md env ctx (Some name) props = (1, c, evs)
      \<and> md c = Some m \<and> aid_len c = 0 \<and> aid c = aid ctx
      \<and> (aid ctx = Aid_NULL \<and> (\<forall>p n. \<not> fst (OSSL_PARAM_set_octet_string env p None n)) \<longrightarrow>
           (\<forall>st ps p. OSSL_PARAM_locate ps OSSL_SIGNATURE_PARAM_ALGORITHM_ID = Some p
               \<longrightarrow> fst (dsa_get_ctx_params env st (Some c) (Some ps)) = 0))
      \<and> (aid ctx \<noteq> Aid_NULL \<longrightarrow>
           (\<forall>st p. dsa_get_ctx_params env st (Some c)
                     (Some [(OSSL_SIGNATURE_PARAM_ALGORITHM_ID, p)]) =
              (case OSSL_PARAM_set_octet_string env p (Some []) 0 of
                 (ok, p') \<Rightarrow> (if ok then 1 else 0,
                                Some [(OSSL_SIGNATURE_PARAM_ALGORITHM_ID, p')]))))
      \<and> (\<forall>enc. \<exists>c'. dsa_setup_md (env\<lparr> ossl_DER_w_algorithmIdentifier_DSA_with_MD := enc \<rparr>)
                        ctx (Some name) props = (1, c', evs)
             \<and> forget_aid c' = forget_aid c
             \<and> (\<forall>sig sigsize tbs.
                   dsa_sign env c' sig sigsize tbs = dsa_sign env c sig sigsize tbs)
             \<and> (\<forall>sg tbs. dsa_verify env c' sg tbs = dsa_verify env c sg tbs)
             \<and> (\<forall>d. apsnd (map_option forget_aid)
                        (dsa_digest_signverify_update env (Some c') d)
                    = apsnd (map_option forget_aid)
                        (dsa_digest_signverify_update env (Some c) d))
             \<and> (\<forall>sig sigsize.
                   apsnd (map_option forget_aid)
                     (dsa_digest_sign_final env (Some c') sig sigsize)
                   = apsnd (map_option forget_aid)
                       (dsa_digest_sign_final env (Some c) sig sigsize))
             \<and> (\<forall>sg. apsnd (map_option forget_aid) (dsa_digest_verify_final env (Some c') sg)
                    = apsnd (map_option forget_aid)
                        (dsa_digest_verify_final env (Some c) sg)))"
proof -
  obtain ok buf written where enc0:
    "ossl_DER_w_algorithmIdentifier_DSA_with_MD env (aid_buf ctx) (dsa ctx) nid
       = (ok, buf, written)"
    by (cases "ossl_DER_w_algorithmIdentifier_DSA_with_MD env (aid_buf ctx) (dsa ctx) nid")
  with fail have nok: "\<not> ok" by simp
  let ?c = "ctx\<lparr> aid_buf := buf, aid_len := 0, aid := aid ctx, mdctx := None, md := Some m,
                 mdname := take (OSSL_MAX_NAME_SIZE env - 1) name \<rparr>"
  let ?evs = "[E_EVP_MD_fetch (Some m), E_EVP_MD_CTX_free (mdctx ctx), E_EVP_MD_free (md ctx)]"
  have bind: "dsa_setup_md env ctx (Some name) props = (1, ?c, ?evs)"
    using fetch appr enc0 nok by (simp add: dsa_setup_md_def Let_def)
  have m: "md ?c = Some m" and l: "aid_len ?c = 0" and a: "aid ?c = aid ctx" by simp_all
  have refused: "fst (dsa_get_ctx_params env st (Some ?c) (Some ps)) = 0"
    if "aid ctx = Aid_NULL" "\<forall>p n. \<not> fst (OSSL_PARAM_set_octet_string env p None n)"
       "OSSL_PARAM_locate ps OSSL_SIGNATURE_PARAM_ALGORITHM_ID = Some p" for st ps p
  proof -
    have "\<not> fst (OSSL_PARAM_set_octet_string env p
                   (read_aid st (aid ?c) (aid_len ?c)) (aid_len ?c))"
      using that(1,2) by simp
    from get_ctx_params_aid_refused [OF that(3) this] show ?thesis .
  qed
  have empty: "dsa_get_ctx_params env st (Some ?c)
                 (Some [(OSSL_SIGNATURE_PARAM_ALGORITHM_ID, p)]) =
             (case OSSL_PARAM_set_octet_string env p (Some []) 0 of
                (ok, p') \<Rightarrow> (if ok then 1 else 0,
                               Some [(OSSL_SIGNATURE_PARAM_ALGORITHM_ID, p')]))"
    if "aid ctx \<noteq> Aid_NULL" for st p
  proof -
    from that have "read_aid st (aid ?c) (aid_len ?c) = Some []"
      by (cases "aid ctx") simp_all
    with get_ctx_params_aid [of env st ?c p] show ?thesis by simp
  qed
  have other: "\<exists>c'. dsa_setup_md (env\<lparr> ossl_DER_w_algorithmIdentifier_DSA_with_MD := enc \<rparr>)
                        ctx (Some name) props = (1, c', ?evs)
             \<and> forget_aid c' = forget_aid ?c" for enc
  proof -
    obtain ok' buf' written' where e: "enc (aid_buf ctx) (dsa ctx) nid = (ok', buf', written')"
      by (cases "enc (aid_buf ctx) (dsa ctx) nid")
    show ?thesis
      using fetch appr e
      by (simp add: dsa_setup_md_def Let_def forget_aid_def approved_nid_encoder)
  qed
  have frames: "(\<forall>sig sigsize tbs.
                   dsa_sign env c' sig sigsize tbs = dsa_sign env ?c sig sigsize tbs)
             \<and> (\<forall>sg tbs. dsa_verify env c' sg tbs = dsa_verify env ?c sg tbs)
             \<and> (\<forall>d. apsnd (map_option forget_aid)
                        (dsa_digest_signverify_update env (Some c') d)
                    = apsnd (map_option forget_aid)
                        (dsa_digest_signverify_update env (Some ?c) d))
             \<and> (\<forall>sig sigsize.
                   apsnd (map_option forget_aid)
                     (dsa_digest_sign_final env (Some c') sig sigsize)
                   = apsnd (map_option forget_aid)
                       (dsa_digest_sign_final env (Some ?c) sig sigsize))
             \<and> (\<forall>sg. apsnd (map_option forget_aid) (dsa_digest_verify_final env (Some c') sg)
                    = apsnd (map_option forget_aid)
                        (dsa_digest_verify_final env (Some ?c) sg))"
    if "forget_aid c' = forget_aid ?c" for c'
    by (intro conjI allI frame_sign frame_verify frame_update frame_sign_final
          frame_verify_final that)
  have all: "\<exists>c'. dsa_setup_md (env\<lparr> ossl_DER_w_algorithmIdentifier_DSA_with_MD := enc \<rparr>)
                        ctx (Some name) props = (1, c', ?evs)
             \<and> forget_aid c' = forget_aid ?c
             \<and> (\<forall>sig sigsize tbs.
                   dsa_sign env c' sig sigsize tbs = dsa_sign env ?c sig sigsize tbs)
             \<and> (\<forall>sg tbs. dsa_verify env c' sg tbs = dsa_verify env ?c sg tbs)
             \<and> (\<forall>d. apsnd (map_option forget_aid)
                        (dsa_digest_signverify_update env (Some c') d)
                    = apsnd (map_option forget_aid)
                        (dsa_digest_signverify_update env (Some ?c) d))
             \<and> (\<forall>sig sigsize.
                   apsnd (map_option forget_aid)
                     (dsa_digest_sign_final env (Some c') sig sigsize)
                   = apsnd (map_option forget_aid)
                       (dsa_digest_sign_final env (Some ?c) sig sigsize))
             \<and> (\<forall>sg. apsnd (map_option forget_aid) (dsa_digest_verify_final env (Some c') sg)
                    = apsnd (map_option forget_aid)
                        (dsa_digest_verify_final env (Some ?c) sg))" for enc
  proof -
    from other [of enc] obtain c' where
      c': "dsa_setup_md (env\<lparr> ossl_DER_w_algorithmIdentifier_DSA_with_MD := enc \<rparr>)
                        ctx (Some name) props = (1, c', ?evs)" "forget_aid c' = forget_aid ?c"
      by auto
    from frames [OF c'(2)] c' show ?thesis by blast
  qed
  have g1: "aid ctx = Aid_NULL \<and> (\<forall>p n. \<not> fst (OSSL_PARAM_set_octet_string env p None n)) \<longrightarrow>
           (\<forall>st ps p. OSSL_PARAM_locate ps OSSL_SIGNATURE_PARAM_ALGORITHM_ID = Some p
               \<longrightarrow> fst (dsa_get_ctx_params env st (Some ?c) (Some ps)) = 0)"
    using refused by blast
  have g2: "aid ctx \<noteq> Aid_NULL \<longrightarrow>
           (\<forall>st p. dsa_get_ctx_params env st (Some ?c)
                     (Some [(OSSL_SIGNATURE_PARAM_ALGORITHM_ID, p)]) =
              (case OSSL_PARAM_set_octet_string env p (Some []) 0 of
                 (ok, p') \<Rightarrow> (if ok then 1 else 0,
                                Some [(OSSL_SIGNATURE_PARAM_ALGORITHM_ID, p')])))"
    using empty by blast
  show ?thesis
    by (rule exI [of _ ?c], rule exI [of _ ?evs])
       (intro conjI bind m l a g1 g2 allI all)
qed

text \<open>
  The theorem on the two contexts of the concrete environment. On a context where
  nothing was ever encoded, the bind of SHA256 with the failing encoder returns 1 and
  the request for the identifier fails, alone and together with the digest name. On a
  context that had encoded an identifier before, the bind of SHA512 with the failing
  encoder returns 1 and the request reports the empty octet string.
\<close>

theorem aid_encoding_failure_not_fatal_witness:
  "dsa_setup_md demo_env_noaid demo_ctx0 (Some ''SHA256'') None =
     (1, demo_ctx0_noaid,
      [E_EVP_MD_fetch (Some 2), E_EVP_MD_CTX_free None, E_EVP_MD_free None])
   \<and> aid_len demo_ctx0_noaid = 0
   \<and> fst (dsa_get_ctx_params demo_env_noaid (store_of [demo_ctx0_noaid])
            (Some demo_ctx0_noaid)
            (Some [(OSSL_SIGNATURE_PARAM_ALGORITHM_ID, P_unset)])) = 0
   \<and> fst (dsa_get_ctx_params demo_env_noaid (store_of [demo_ctx0_noaid])
            (Some demo_ctx0_noaid)
            (Some [(OSSL_SIGNATURE_PARAM_DIGEST, P_unset),
                   (OSSL_SIGNATURE_PARAM_ALGORITHM_ID, P_unset)])) = 0
   \<and> dsa_setup_md demo_env_noaid demo_ctx1 (Some ''SHA512'') None =
       (1, demo_ctx1_noaid,
        [E_EVP_MD_fetch (Some 3), E_EVP_MD_CTX_free None, E_EVP_MD_free (Some 2)])
   \<and> aid_len demo_ctx1_noaid = 0
   \<and> dsa_get_ctx_params demo_env_noaid (store_of [demo_ctx1_noaid]) (Some demo_ctx1_noaid)
        (Some [(OSSL_SIGNATURE_PARAM_ALGORITHM_ID, P_unset)]) =
       (1, Some [(OSSL_SIGNATURE_PARAM_ALGORITHM_ID, P_octet [])])"
proof -
  have f: "EVP_MD_fetch demo_env_noaid (libctx c) ''SHA256''
             (case None of None \<Rightarrow> propq c | Some s \<Rightarrow> Some s) = Some 2"
    "EVP_MD_fetch demo_env_noaid (libctx c) ''SHA512''
             (case None of None \<Rightarrow> propq c | Some s \<Rightarrow> Some s) = Some 3"
    for c :: "byte list PROV_DSA_CTX"
    by (simp_all add: demo_env_noaid_def demo_env_def)
  have ap: "ossl_digest_get_approved_nid_with_sha1 demo_env_noaid (Some 2)
              (operation demo_ctx0 \<noteq> EVP_PKEY_OP_SIGN) = 672"
    "ossl_digest_get_approved_nid_with_sha1 demo_env_noaid (Some 3)
              (operation demo_ctx1 \<noteq> EVP_PKEY_OP_SIGN) = 674"
    by (simp_all add: ossl_digest_get_approved_nid_with_sha1_def demo_env_noaid_def
          demo_env_def NID_sha1_def)
  have n: "(672 :: int) \<noteq> NID_undef" "(674 :: int) \<noteq> NID_undef"
    by (simp_all add: NID_undef_def)
  have e: "\<not> fst (ossl_DER_w_algorithmIdentifier_DSA_with_MD demo_env_noaid
                    (aid_buf demo_ctx0) (dsa demo_ctx0) 672)"
    "\<not> fst (ossl_DER_w_algorithmIdentifier_DSA_with_MD demo_env_noaid
                    (aid_buf demo_ctx1) (dsa demo_ctx1) 674)"
    by (simp_all add: demo_env_noaid_def)
  have b0: "dsa_setup_md demo_env_noaid demo_ctx0 (Some ''SHA256'') None =
     (1, demo_ctx0_noaid,
      [E_EVP_MD_fetch (Some 2), E_EVP_MD_CTX_free None, E_EVP_MD_free None])"
    by (simp add: dsa_setup_md_def ossl_digest_get_approved_nid_with_sha1_def
          demo_env_noaid_def demo_env_def demo_ctx0_noaid_def demo_ctx0_def NID_sha1_def
          NID_undef_def Let_def)
  have b1: "dsa_setup_md demo_env_noaid demo_ctx1 (Some ''SHA512'') None =
       (1, demo_ctx1_noaid,
        [E_EVP_MD_fetch (Some 3), E_EVP_MD_CTX_free None, E_EVP_MD_free (Some 2)])"
    by (simp add: dsa_setup_md_def ossl_digest_get_approved_nid_with_sha1_def
          demo_env_noaid_def demo_env_def demo_ctx1_noaid_def demo_ctx1_def demo_ctx0_def
          NID_sha1_def NID_undef_def Let_def)
  have null: "aid demo_ctx0 = Aid_NULL" and stale: "aid demo_ctx1 \<noteq> Aid_NULL"
    by (simp_all add: demo_ctx0_def demo_ctx1_def)
  have rej: "\<forall>p n. \<not> fst (OSSL_PARAM_set_octet_string demo_env_noaid p None n)"
    by (simp add: demo_env_noaid_def demo_env_def)
  have acc: "OSSL_PARAM_set_octet_string demo_env_noaid P_unset (Some []) 0 = (True, P_octet [])"
    by (simp add: demo_env_noaid_def demo_env_def)
  have loc: "OSSL_PARAM_locate [(OSSL_SIGNATURE_PARAM_ALGORITHM_ID, P_unset)]
               OSSL_SIGNATURE_PARAM_ALGORITHM_ID = Some P_unset"
    "OSSL_PARAM_locate [(OSSL_SIGNATURE_PARAM_DIGEST, P_unset),
                        (OSSL_SIGNATURE_PARAM_ALGORITHM_ID, P_unset)]
               OSSL_SIGNATURE_PARAM_ALGORITHM_ID = Some P_unset"
    by (simp_all add: OSSL_SIGNATURE_PARAM_ALGORITHM_ID_def OSSL_SIGNATURE_PARAM_DIGEST_def)
  from aid_encoding_failure_not_fatal [OF f(1) ap(1) n(1) e(1)] b0 null rej loc
  have first: "aid_len demo_ctx0_noaid = 0
     \<and> fst (dsa_get_ctx_params demo_env_noaid (store_of [demo_ctx0_noaid])
            (Some demo_ctx0_noaid)
            (Some [(OSSL_SIGNATURE_PARAM_ALGORITHM_ID, P_unset)])) = 0
     \<and> fst (dsa_get_ctx_params demo_env_noaid (store_of [demo_ctx0_noaid])
            (Some demo_ctx0_noaid)
            (Some [(OSSL_SIGNATURE_PARAM_DIGEST, P_unset),
                   (OSSL_SIGNATURE_PARAM_ALGORITHM_ID, P_unset)])) = 0"
    by auto
  from aid_encoding_failure_not_fatal [OF f(2) ap(2) n(2) e(2)] b1 stale acc
  have second: "aid_len demo_ctx1_noaid = 0
     \<and> dsa_get_ctx_params demo_env_noaid (store_of [demo_ctx1_noaid]) (Some demo_ctx1_noaid)
        (Some [(OSSL_SIGNATURE_PARAM_ALGORITHM_ID, P_unset)]) =
       (1, Some [(OSSL_SIGNATURE_PARAM_ALGORITHM_ID, P_octet [])])"
    by auto
  from b0 b1 first second show ?thesis by simp
qed

text \<open>
  The claim as stated fails: in the concrete environment, whose setter refuses a NULL
  value, a first bind with the failing encoder returns 1 and leaves \<open>aid\<close> NULL with
  \<open>aid_len\<close> 0, and the request for the identifier then returns 0 with the slot as it
  was. The same request on the context bound with the working encoder returns 1 with
  the identifier: the encoding failure has turned a get call that succeeds into one that
  fails.
\<close>

theorem aid_encoding_failure_fails_get:
  "dsa_setup_md demo_env_noaid demo_ctx0 (Some ''SHA256'') None =
     (1, demo_ctx0_noaid,
      [E_EVP_MD_fetch (Some 2), E_EVP_MD_CTX_free None, E_EVP_MD_free None])
   \<and> aid demo_ctx0_noaid = Aid_NULL \<and> aid_len demo_ctx0_noaid = 0
   \<and> dsa_get_ctx_params demo_env_noaid (store_of [demo_ctx0_noaid]) (Some demo_ctx0_noaid)
        (Some [(OSSL_SIGNATURE_PARAM_ALGORITHM_ID, P_unset)]) =
       (0, Some [(OSSL_SIGNATURE_PARAM_ALGORITHM_ID, P_unset)])
   \<and> dsa_setup_md demo_env demo_ctx0 (Some ''SHA256'') None =
       (1, demo_ctx1,
        [E_EVP_MD_fetch (Some 2), E_EVP_MD_CTX_free None, E_EVP_MD_free None])
   \<and> dsa_get_ctx_params demo_env (store_of [demo_ctx1]) (Some demo_ctx1)
        (Some [(OSSL_SIGNATURE_PARAM_ALGORITHM_ID, P_unset)]) =
       (1, Some [(OSSL_SIGNATURE_PARAM_ALGORITHM_ID, P_octet [2, 160])])"
proof -
  have b0: "dsa_setup_md demo_env_noaid demo_ctx0 (Some ''SHA256'') None =
     (1, demo_ctx0_noaid,
      [E_EVP_MD_fetch (Some 2), E_EVP_MD_CTX_free None, E_EVP_MD_free None])"
    by (simp add: dsa_setup_md_def ossl_digest_get_approved_nid_with_sha1_def
          demo_env_noaid_def demo_env_def demo_ctx0_noaid_def demo_ctx0_def NID_sha1_def
          NID_undef_def Let_def)
  have fields: "aid demo_ctx0_noaid = Aid_NULL \<and> aid_len demo_ctx0_noaid = 0"
    by (simp add: demo_ctx0_noaid_def demo_ctx0_def)
  have g0: "dsa_get_ctx_params demo_env_noaid (store_of [demo_ctx0_noaid])
        (Some demo_ctx0_noaid) (Some [(OSSL_SIGNATURE_PARAM_ALGORITHM_ID, P_unset)]) =
       (0, Some [(OSSL_SIGNATURE_PARAM_ALGORITHM_ID, P_unset)])"
    by (simp add: dsa_get_ctx_params_def demo_env_noaid_def demo_env_def demo_ctx0_noaid_def
          demo_ctx0_def OSSL_SIGNATURE_PARAM_ALGORITHM_ID_def OSSL_SIGNATURE_PARAM_DIGEST_def)
  have b1: "dsa_setup_md demo_env demo_ctx0 (Some ''SHA256'') None =
       (1, demo_ctx1,
        [E_EVP_MD_fetch (Some 2), E_EVP_MD_CTX_free None, E_EVP_MD_free None])"
    by (simp add: dsa_setup_md_def ossl_digest_get_approved_nid_with_sha1_def
          demo_env_def demo_ctx1_def demo_ctx0_def NID_sha1_def NID_undef_def Let_def)
  have g1: "dsa_get_ctx_params demo_env (store_of [demo_ctx1]) (Some demo_ctx1)
        (Some [(OSSL_SIGNATURE_PARAM_ALGORITHM_ID, P_unset)]) =
       (1, Some [(OSSL_SIGNATURE_PARAM_ALGORITHM_ID, P_octet [2, 160])])"
    by (simp add: dsa_get_ctx_params_def demo_env_def demo_ctx1_def demo_ctx0_def
          OSSL_SIGNATURE_PARAM_ALGORITHM_ID_def OSSL_SIGNATURE_PARAM_DIGEST_def)
  from b0 fields g0 b1 g1 show ?thesis by simp
qed

subsection \<open>The claims: the streaming operation\<close>



text \<open>
  Claim C4 (stream invariant), as amended. In every reachable context, a digest stream
  implies a bound digest. A successful \<open>dsa_digest_signverify_init\<close> from there leaves a
  stream, a digest and a cleared \<open>flag_allow_md\<close>, and all three stay so across any
  updates. (The environments are those where a digest stream cannot be initialised
  without a digest.) The flag is not part of the invariant: the finalisers set it and
  leave the stream in place.
\<close>

theorem stream_implies_digest:
  assumes "reach (digest_init_needs_md :: ('mdctx, 'p) env \<Rightarrow> bool) c"
  shows "(mdctx c \<noteq> None \<longrightarrow> md c \<noteq> None)
       \<and> (\<forall>(env :: ('mdctx, 'p) env) name vdsa op c' evs.
             digest_init_needs_md env
             \<and> dsa_digest_signverify_init env c name vdsa op = (1, c', evs)
           \<longrightarrow> mdctx c' \<noteq> None \<and> md c' \<noteq> None \<and> \<not> flag_allow_md c'
               \<and> (\<forall>(env' :: ('mdctx, 'p) env) chunks.
                     \<exists>c''. stream_updates env' (Some c') chunks = Some c''
                      \<and> mdctx c'' \<noteq> None \<and> md c'' \<noteq> None \<and> \<not> flag_allow_md c''))"
proof -
  have inv: "mdctx c \<noteq> None \<longrightarrow> md c \<noteq> None"
    using assms
  proof (induction rule: reach.induct)
    case (reach_newctx env provctx pq c evs)
    then show ?case by (auto dest: newctx_result)
  next
    case (reach_dupctx c env c' evs)
    then show ?case using dupctx_result [of env c c' evs] by auto
  next
    case (reach_signverify_init c env vdsa op r c' evs)
    then show ?case using signverify_init_frame [of env c vdsa op r "Some c'" evs] by auto
  next
    case (reach_digest_signverify_init c env name vdsa op r c' evs)
    then show ?case
      using digest_signverify_init_result [of env c name vdsa op r c' evs] by auto
  next
    case (reach_digest_signverify_update c env data r c')
    then show ?case using update_result [of env c data r c'] by auto
  next
    case (reach_digest_sign_final c env sig sigsize res c')
    then show ?case using sign_final_result [of env c sig sigsize res c'] by auto
  next
    case (reach_digest_verify_final c env sg r c')
    then show ?case using verify_final_result [of env c sg r c'] by auto
  next
    case (reach_set_ctx_params c env params r c' evs)
    then show ?case using set_ctx_params_result [of env c params r c' evs] by auto
  next
    case (reach_set_ctx_md_params c env params r c')
    then show ?case using set_ctx_md_params_result [of env c params r c'] by auto
  qed
  have upd: "\<exists>c''. stream_updates env' (Some c') chunks = Some c''
                      \<and> mdctx c'' \<noteq> None \<and> md c'' \<noteq> None \<and> \<not> flag_allow_md c''"
    if "mdctx c' \<noteq> None" "md c' \<noteq> None" "\<not> flag_allow_md c'"
    for env' :: "('mdctx, 'p) env" and c' chunks
    using stream_updates_Some [of env' c' chunks] that by auto
  have init: "mdctx c' \<noteq> None \<and> md c' \<noteq> None \<and> \<not> flag_allow_md c'
               \<and> (\<forall>(env' :: ('mdctx, 'p) env) chunks.
                     \<exists>c''. stream_updates env' (Some c') chunks = Some c''
                      \<and> mdctx c'' \<noteq> None \<and> md c'' \<noteq> None \<and> \<not> flag_allow_md c'')"
    if "digest_init_needs_md env" "dsa_digest_signverify_init env c name vdsa op = (1, c', evs)"
    for env :: "('mdctx, 'p) env" and name vdsa op c' evs
  proof -
    from digest_signverify_init_result [OF that]
    have "mdctx c' \<noteq> None" "md c' \<noteq> None" "\<not> flag_allow_md c'" by auto
    with upd show ?thesis by blast
  qed
  from inv init show ?thesis by blast
qed

theorem stream_implies_digest_witness:
  "mdctx demo_ctx3 = Some [5, 6, 7] \<and> md demo_ctx3 \<noteq> None
   \<and> dsa_digest_signverify_init demo_env demo_ctx3 (Some ''SHA256'') (Some 7)
        EVP_PKEY_OP_SIGN =
       (1, demo_ctx1\<lparr> flag_allow_md := False, mdctx := Some [] \<rparr>,
        [E_DSA_up_ref 7, E_DSA_free (Some 7), E_EVP_MD_fetch (Some 2),
         E_EVP_MD_CTX_free (Some [5, 6, 7]), E_EVP_MD_free (Some 2), E_EVP_MD_CTX_new []])
   \<and> \<not> flag_allow_md (demo_ctx1\<lparr> flag_allow_md := False, mdctx := Some [] \<rparr>)
   \<and> md (demo_ctx1\<lparr> flag_allow_md := False, mdctx := Some [] \<rparr>) \<noteq> None"
proof -
  have s: "mdctx demo_ctx3 = Some [5, 6, 7]"
    by (simp add: demo_ctx3_def demo_ctx2_def)
  have i: "dsa_digest_signverify_init demo_env demo_ctx3 (Some ''SHA256'') (Some 7)
             EVP_PKEY_OP_SIGN =
       (1, demo_ctx1\<lparr> flag_allow_md := False, mdctx := Some [] \<rparr>,
        [E_DSA_up_ref 7, E_DSA_free (Some 7), E_EVP_MD_fetch (Some 2),
         E_EVP_MD_CTX_free (Some [5, 6, 7]), E_EVP_MD_free (Some 2), E_EVP_MD_CTX_new []])"
    by (simp add: dsa_digest_signverify_init_def dsa_signverify_init_def dsa_setup_md_def
          ossl_digest_get_approved_nid_with_sha1_def demo_env_def demo_ctx3_def demo_ctx2_def
          demo_ctx1_def demo_ctx0_def NID_sha1_def NID_undef_def Let_def)
  from stream_implies_digest [OF demo_ctx3_reach] s i demo_env_needs_md
  show ?thesis by blast
qed

text \<open>
  The claim as stated fails: the context reached by \<open>dsa_newctx\<close>, \<open>dsa_sign_init\<close>,
  \<open>dsa_digest_sign_init\<close>, one update and \<open>dsa_digest_sign_final\<close> holds a digest
  stream and has \<open>flag_allow_md\<close> set.
\<close>

theorem stream_outlives_lock:
  "reach (digest_init_needs_md :: (byte list, demo_param) env \<Rightarrow> bool) demo_ctx3
   \<and> mdctx demo_ctx3 = Some [5, 6, 7] \<and> md demo_ctx3 = Some 2 \<and> flag_allow_md demo_ctx3"
  using demo_ctx3_reach
  by (simp add: demo_ctx3_def demo_ctx2_def demo_ctx1_def demo_ctx0_def)

text \<open>
  Claim C9 (the stream survives the finaliser). After \<open>dsa_digest_sign_final\<close> has
  returned 1, or \<open>dsa_digest_verify_final\<close> has returned 1, the context still holds the
  digest stream, in the state \<open>EVP_DigestFinal_ex\<close> left it in (untouched after a size
  query). A following \<open>dsa_digest_signverify_update\<close> does not take the no-stream exit:
  it hands that state to \<open>EVP_DigestUpdate\<close> and returns what that returns.
\<close>

theorem stream_survives_finalize:
  "(\<forall>out. dsa_digest_sign_final env (Some ctx) sig sigsize = (Some out, Some ctx') \<longrightarrow>
      (\<exists>m m'. mdctx ctx = Some m \<and> mdctx ctx' = Some m'
         \<and> m' = (if sig then snd (snd (EVP_DigestFinal_ex env m)) else m)
         \<and> dsa_digest_signverify_update env (Some ctx') data =
             (fst (EVP_DigestUpdate env m' data),
              Some (ctx'\<lparr> mdctx := Some (snd (EVP_DigestUpdate env m' data)) \<rparr>))))
   \<and> (dsa_digest_verify_final env (Some ctx) sg = (1, Some ctx') \<longrightarrow>
      (\<exists>m m'. mdctx ctx = Some m \<and> mdctx ctx' = Some m'
         \<and> m' = snd (snd (EVP_DigestFinal_ex env m))
         \<and> dsa_digest_signverify_update env (Some ctx') data =
             (fst (EVP_DigestUpdate env m' data),
              Some (ctx'\<lparr> mdctx := Some (snd (EVP_DigestUpdate env m' data)) \<rparr>))))"
  by (auto simp: dsa_digest_sign_final_def dsa_digest_verify_final_def
        dsa_digest_signverify_update_def Let_def
      split: if_splits option.splits prod.splits)

theorem stream_survives_finalize_witness:
  "dsa_digest_sign_final demo_env (Some demo_ctx2) True 4 =
     (Some (2, Some [6, 5]), Some demo_ctx3)
   \<and> mdctx demo_ctx3 = Some [5, 6, 7]
   \<and> dsa_digest_signverify_update demo_env (Some demo_ctx3) [9] =
       (1, Some (demo_ctx3\<lparr> mdctx := Some [5, 6, 7, 9] \<rparr>))"
proof -
  have e: "EVP_DigestFinal_ex demo_env [5, 6, 7] = (True, [5, 6], [5, 6, 7])"
    "EVP_DigestUpdate demo_env [5, 6, 7] [9] = (1, [5, 6, 7, 9])"
    by (simp_all add: demo_env_def)
  have s: "mdctx demo_ctx2 = Some [5, 6, 7]" by (simp add: demo_ctx2_def)
  from stream_survives_finalize
         [of demo_env demo_ctx2 True 4 demo_ctx3 "[9]"] demo_eval_sign_final e s
  show ?thesis by auto
qed

text \<open>
  Claim C10 (size query through the finaliser). With a running provider and a stream in
  the context, \<open>dsa_digest_sign_final\<close> without an output buffer returns \<open>DSA_size\<close> of
  the key and changes one field of the context, \<open>flag_allow_md\<close>, which it sets; the
  stream is as it was. The result is the same whatever \<open>EVP_DigestFinal_ex\<close> is: it is
  not called.
\<close>

theorem sign_final_size_query:
  assumes run: "ossl_prov_is_running env"
    and stream: "mdctx ctx = Some m"
  shows "dsa_digest_sign_final env (Some ctx) False sigsize =
           (Some (of_int (DSA_size env (dsa ctx)), None), Some (ctx\<lparr> flag_allow_md := True \<rparr>))
       \<and> (\<forall>f. dsa_digest_sign_final (env\<lparr> EVP_DigestFinal_ex := f \<rparr>) (Some ctx) False sigsize =
                dsa_digest_sign_final env (Some ctx) False sigsize)"
  using assms by (simp add: dsa_digest_sign_final_def dsa_sign_def dsa_get_md_size_def Let_def)

theorem sign_final_size_query_witness:
  "dsa_digest_sign_final demo_env (Some demo_ctx2) False 0 =
     (Some (4, None), Some (demo_ctx2\<lparr> flag_allow_md := True \<rparr>))
   \<and> mdctx (demo_ctx2\<lparr> flag_allow_md := True \<rparr>) = Some [5, 6, 7]"
proof -
  have run: "ossl_prov_is_running demo_env" by (simp add: demo_env_def)
  have s: "mdctx demo_ctx2 = Some [5, 6, 7]" by (simp add: demo_ctx2_def)
  have d: "DSA_size demo_env (dsa demo_ctx2) = 4" by (simp add: demo_env_def)
  from sign_final_size_query [OF run s, of 0] d s show ?thesis by simp
qed

subsection \<open>The claims: duplication\<close>

text \<open>
  Claim C7 (duplication). The all-or-nothing half holds: see \<open>dupctx_all_or_nothing\<close>
  above. The duplicate is not independent of its source, though. The struct copy takes
  the pointer \<open>aid\<close> along, and \<open>dsa_dupctx\<close> does not point it at the duplicate's own
  \<open>aid_buf\<close>: in the concrete environment, the duplicate (at address 2) of a context (at
  address 1) with SHA256 bound has its \<open>aid\<close> in the buffer of the context at address 1.
  Asked for its identifier, the duplicate first reports the bytes for SHA256; once
  the source has bound SHA512, the duplicate, whose digest is still SHA256, reports
  the bytes for SHA512.
\<close>

theorem dupctx_aid_points_into_source:
  "dsa_dupctx demo_env2 demo_ctx1 =
     (Some demo_dup, [E_OPENSSL_zalloc 2, E_DSA_up_ref 7, E_EVP_MD_up_ref 2])
   \<and> addr demo_ctx1 = 1 \<and> addr demo_dup = 2 \<and> aid demo_dup = Aid_at 1 2
   \<and> md demo_dup = Some 2 \<and> mdname demo_dup = ''SHA256''
   \<and> dsa_get_ctx_params demo_env (store_of [demo_ctx1, demo_dup]) (Some demo_dup)
        (Some [(OSSL_SIGNATURE_PARAM_ALGORITHM_ID, P_unset)]) =
      (1, Some [(OSSL_SIGNATURE_PARAM_ALGORITHM_ID, P_octet [2, 160])])
   \<and> dsa_set_ctx_params demo_env (Some demo_ctx1)
        (Some [(OSSL_SIGNATURE_PARAM_DIGEST, P_utf8 ''SHA512'')]) =
      (1, Some demo_ctx1_sha512,
       [E_EVP_MD_fetch (Some 3), E_EVP_MD_CTX_free None, E_EVP_MD_free (Some 2)])
   \<and> dsa_get_ctx_params demo_env (store_of [demo_ctx1_sha512, demo_dup]) (Some demo_dup)
        (Some [(OSSL_SIGNATURE_PARAM_ALGORITHM_ID, P_unset)]) =
      (1, Some [(OSSL_SIGNATURE_PARAM_ALGORITHM_ID, P_octet [2, 162])])"
proof -
  have dup: "dsa_dupctx demo_env2 demo_ctx1 =
     (Some demo_dup, [E_OPENSSL_zalloc 2, E_DSA_up_ref 7, E_EVP_MD_up_ref 2])"
    by (simp add: dsa_dupctx_def demo_env2_def demo_env_def demo_dup_def demo_ctx1_def
          demo_ctx0_def)
  have fields: "addr demo_ctx1 = 1 \<and> addr demo_dup = 2 \<and> aid demo_dup = Aid_at 1 2
      \<and> md demo_dup = Some 2 \<and> mdname demo_dup = ''SHA256''"
    by (simp add: demo_dup_def demo_ctx1_def demo_ctx0_def)
  have g1: "dsa_get_ctx_params demo_env (store_of [demo_ctx1, demo_dup]) (Some demo_dup)
        (Some [(OSSL_SIGNATURE_PARAM_ALGORITHM_ID, P_unset)]) =
      (1, Some [(OSSL_SIGNATURE_PARAM_ALGORITHM_ID, P_octet [2, 160])])"
    by (simp add: dsa_get_ctx_params_def demo_env_def demo_dup_def demo_ctx1_def demo_ctx0_def
          OSSL_SIGNATURE_PARAM_ALGORITHM_ID_def OSSL_SIGNATURE_PARAM_DIGEST_def)
  have rebind: "dsa_set_ctx_params demo_env (Some demo_ctx1)
        (Some [(OSSL_SIGNATURE_PARAM_DIGEST, P_utf8 ''SHA512'')]) =
      (1, Some demo_ctx1_sha512,
       [E_EVP_MD_fetch (Some 3), E_EVP_MD_CTX_free None, E_EVP_MD_free (Some 2)])"
    by (simp add: dsa_set_ctx_params_def dsa_setup_md_def
          ossl_digest_get_approved_nid_with_sha1_def demo_env_def demo_ctx1_sha512_def
          demo_ctx1_def demo_ctx0_def OSSL_SIGNATURE_PARAM_DIGEST_def
          OSSL_SIGNATURE_PARAM_PROPERTIES_def NID_sha1_def NID_undef_def Let_def)
  have g2: "dsa_get_ctx_params demo_env (store_of [demo_ctx1_sha512, demo_dup]) (Some demo_dup)
        (Some [(OSSL_SIGNATURE_PARAM_ALGORITHM_ID, P_unset)]) =
      (1, Some [(OSSL_SIGNATURE_PARAM_ALGORITHM_ID, P_octet [2, 162])])"
    by (simp add: dsa_get_ctx_params_def demo_env_def demo_dup_def demo_ctx1_sha512_def
          demo_ctx1_def demo_ctx0_def OSSL_SIGNATURE_PARAM_ALGORITHM_ID_def
          OSSL_SIGNATURE_PARAM_DIGEST_def)
  from dup fields g1 rebind g2 show ?thesis by simp
qed

end
